theory Spec2Isabelle
  imports Main
begin

section \<open>Python values and text\<close>

text \<open>
  The values the host hands to the launcher are dynamically typed. \<open>PObj t r\<close> stands for
  any object that is neither \<open>None\<close>, a \<open>str\<close> nor an \<open>int\<close>: \<open>t\<close> is the name of its type
  and \<open>r\<close> is what \<open>str()\<close> returns for it. Text is a list of 8-bit characters.
\<close>

datatype pyval = PNone | PStr string | PInt int | PObj string string

definition dict_get :: "(string \<rightharpoonup> pyval) \<Rightarrow> string \<Rightarrow> pyval \<Rightarrow> pyval" where
  "dict_get d k dflt = (case d k of None \<Rightarrow> dflt | Some v \<Rightarrow> v)"

definition digit_char :: "nat \<Rightarrow> char" where
  "digit_char n = ''0123456789'' ! n"

function str_nat :: "nat \<Rightarrow> string" where
  "str_nat n = (if n < 10 then [digit_char n] else str_nat (n div 10) @ [digit_char (n mod 10)])"
  by pat_completeness auto
termination
  by (relation "measure id") auto

declare str_nat.simps [simp del]

definition str_int :: "int \<Rightarrow> string" where
  "str_int i = (if i < 0 then CHR ''-'' # str_nat (nat (- i)) else str_nat (nat i))"

fun py_str :: "pyval \<Rightarrow> string" where
  "py_str PNone = ''None''"
| "py_str (PStr t) = t"
| "py_str (PInt i) = str_int i"
| "py_str (PObj ty r) = r"

fun py_type_name :: "pyval \<Rightarrow> string" where
  "py_type_name PNone = ''NoneType''"
| "py_type_name (PStr t) = ''str''"
| "py_type_name (PInt i) = ''int''"
| "py_type_name (PObj ty r) = ty"

text \<open>
  \<open>str.rstrip()\<close> and \<open>str.strip()\<close> without an argument remove whitespace as
  \<open>str.isspace\<close> sees it; on 8-bit text that is tab, line feed, vertical tab, form feed,
  carriage return, the four separators 0x1C..0x1F and the space.
\<close>

definition py_isspace :: "char \<Rightarrow> bool" where
  "py_isspace c = (c \<in> set [CHR 0x09, CHR 0x0A, CHR 0x0B, CHR 0x0C, CHR 0x0D,
                            CHR 0x1C, CHR 0x1D, CHR 0x1E, CHR 0x1F, CHR 0x20])"

definition str_lstrip :: "string \<Rightarrow> string" where
  "str_lstrip t = dropWhile py_isspace t"

definition str_rstrip :: "string \<Rightarrow> string" where
  "str_rstrip t = rev (dropWhile py_isspace (rev t))"

definition str_strip :: "string \<Rightarrow> string" where
  "str_strip t = str_rstrip (str_lstrip t)"

definition str_startswith :: "string \<Rightarrow> string \<Rightarrow> bool" where
  "str_startswith t p = (take (length p) t = p)"

text \<open>\<open>t.split(sep, 1)\<close> for a one-character separator: at most one split, at the first
  occurrence.\<close>

definition str_split1 :: "char \<Rightarrow> string \<Rightarrow> string list" where
  "str_split1 sep t =
     (if sep \<in> set t
      then [takeWhile (\<lambda>c. c \<noteq> sep) t, tl (dropWhile (\<lambda>c. c \<noteq> sep) t)]
      else [t])"

text \<open>\<open>os.path.join(a, b)\<close> of \<open>posixpath\<close> for two components.\<close>

definition path_join :: "string \<Rightarrow> string \<Rightarrow> string" where
  "path_join a b =
     (if str_startswith b ''/'' then b
      else if a = [] \<or> last a = CHR ''/'' then a @ b
      else a @ ''/'' @ b)"

section \<open>The launcher (easymd.py)\<close>

subsection \<open>Exceptions, effects and the host\<close>

text \<open>
  \<open>CalledProcessError rc cmd err\<close> carries the return code, the command and the \<open>stderr\<close>
  attribute; \<open>PyException m\<close> is any other exception, \<open>m\<close> being its \<open>str()\<close>.
\<close>

datatype exn =
    CalledProcessError int "string list" "string option"
  | PyException string

datatype outcome = Returned | Raised string

datatype event =
    Printed string
  | TempFileCreated string
  | JsonDumped string "(string \<times> pyval) list"
  | ProcessSpawned "string list"
  | ProcessExited int
  | FileUnlinked string
  | OutputSet string string

record block =
  inputs :: "string \<rightharpoonup> pyval"
  variables :: "string \<rightharpoonup> pyval"

text \<open>
  The state the launcher acts on: the paths that exist on disk, the outputs set on the
  host block, and the effects in the order they happened. Only the launcher touches its
  temporary file, so no other actor changes \<open>files\<close> during a call.
\<close>

record lstate =
  files :: "string set"
  outputs :: "string \<rightharpoonup> string"
  trace :: "event list"

text \<open>
  What the child process does once spawned: the lines the launcher reads from its merged
  output (as the stream yields them, line ends included), and then either its exit code or
  an exception raised by the stream while reading.
\<close>

datatype child_end = Exits int | ReadRaises string

record child =
  out_lines :: "string list"
  ending :: child_end

text \<open>
  The library and the operating system, as parameters. A call that can raise returns the
  \<open>str()\<close> of its exception on the left.
  \<^item> \<open>named_temporary_file\<close>: \<open>tempfile.NamedTemporaryFile(mode="w", suffix=".json",
    delete=False)\<close>, the path of the file it creates;
  \<^item> \<open>json_dump\<close>: \<open>json.dump\<close> of the parameters into that file (\<open>Some m\<close>: it raises);
  \<^item> \<open>script_dir\<close>: \<open>os.path.dirname(os.path.abspath(__file__))\<close>;
  \<^item> \<open>popen\<close>: \<open>subprocess.Popen\<close> of the command;
  \<^item> \<open>cpe_str\<close>: \<open>str()\<close> of a \<open>CalledProcessError\<close> with this return code and command;
  \<^item> \<open>unlink_error\<close>: \<open>str()\<close> of the error \<open>os.unlink\<close> raises for a path that does not
    exist.
\<close>

record host =
  named_temporary_file :: "string + string"
  json_dump :: "(string \<times> pyval) list \<Rightarrow> string option"
  script_dir :: string
  popen :: "string list \<Rightarrow> string + child"
  cpe_str :: "int \<Rightarrow> string list \<Rightarrow> string"
  unlink_error :: "string \<Rightarrow> string"

definition emit :: "event \<Rightarrow> lstate \<Rightarrow> lstate" where
  "emit e s = s\<lparr>trace := trace s @ [e]\<rparr>"

definition os_unlink :: "host \<Rightarrow> string \<Rightarrow> lstate \<Rightarrow> (exn + unit) \<times> lstate" where
  "os_unlink h p s =
     (if p \<in> files s
      then (Inr (), emit (FileUnlinked p) (s\<lparr>files := files s - {p}\<rparr>))
      else (Inl (PyException (unlink_error h p)), s))"

definition setOutput :: "string \<Rightarrow> string \<Rightarrow> lstate \<Rightarrow> lstate" where
  "setOutput k v s = emit (OutputSet k v) (s\<lparr>outputs := (outputs s)(k \<mapsto> v)\<rparr>)"

subsection \<open>Reading the child's output (lines 172-180)\<close>

record capture =
  topology_file :: string
  trajectory_file :: string

text \<open>\<open>xs[i]\<close> on a list, for \<open>i \<ge> 0\<close>.\<close>

definition list_index :: "'a list \<Rightarrow> nat \<Rightarrow> exn + 'a" where
  "list_index xs i =
     (if i < length xs then Inr (xs ! i) else Inl (PyException ''list index out of range''))"

definition parse_line :: "string \<Rightarrow> capture \<Rightarrow> exn + capture" where
  "parse_line line c =
     (if str_startswith line ''TOPOLOGY_FILE:'' then
        (case list_index (str_split1 CHR '':'' line) 1 of
           Inl e \<Rightarrow> Inl e
         | Inr v \<Rightarrow> Inr (c\<lparr>topology_file := str_strip v\<rparr>))
      else if str_startswith line ''TRAJECTORY_FILE:'' then
        (case list_index (str_split1 CHR '':'' line) 1 of
           Inl e \<Rightarrow> Inl e
         | Inr v \<Rightarrow> Inr (c\<lparr>trajectory_file := str_strip v\<rparr>))
      else Inr c)"

fun read_lines :: "string list \<Rightarrow> capture \<Rightarrow> lstate \<Rightarrow> (exn + capture) \<times> lstate" where
  "read_lines [] c s = (Inr c, s)"
| "read_lines (raw # rest) c s =
     (let line = str_rstrip raw;
          s1 = emit (Printed line) s
      in case parse_line line c of
           Inl e \<Rightarrow> (Inl e, s1)
         | Inr c' \<Rightarrow> read_lines rest c' s1)"

subsection \<open>The action \<open>runMDSimulation\<close> (lines 95-214)\<close>

text \<open>\<open>sep.join(items)\<close>: every item must be a \<open>str\<close>; the error names the first that is
  not, by its position \<open>i\<close> in the sequence.\<close>

fun join_items :: "nat \<Rightarrow> pyval list \<Rightarrow> exn + string list" where
  "join_items i [] = Inr []"
| "join_items i (PStr t # vs) =
     (case join_items (Suc i) vs of Inl e \<Rightarrow> Inl e | Inr ts \<Rightarrow> Inr (t # ts))"
| "join_items i (v # vs) =
     Inl (PyException (''sequence item '' @ str_nat i @ '': expected str instance, ''
                        @ py_type_name v @ '' found''))"

fun intersperse :: "string \<Rightarrow> string list \<Rightarrow> string" where
  "intersperse sep [] = []"
| "intersperse sep [t] = t"
| "intersperse sep (t # u # ts) = t @ sep @ intersperse sep (u # ts)"

definition build_params ::
  "pyval \<Rightarrow> pyval \<Rightarrow> pyval \<Rightarrow> pyval \<Rightarrow> pyval \<Rightarrow> pyval \<Rightarrow> pyval \<Rightarrow> (string \<times> pyval) list" where
  "build_params protein_path ligand_path md_steps md_save_interval platform_name
       platform_precision starting_state_path =
     [(''protein_file'', protein_path),
      (''ligand_file'', ligand_path),
      (''md_steps'', md_steps),
      (''md_save_interval'', md_save_interval),
      (''platform_name'', platform_name),
      (''platform_precision'', platform_precision),
      (''starting_state_path'', starting_state_path)]"

text \<open>
  Lines 126-130. The result is the binding of \<open>param_file_path\<close>: the name is bound only
  after \<open>json.dump\<close> has returned, inside the \<open>with\<close> block; the file exists from the
  moment \<open>NamedTemporaryFile\<close> returns, and \<open>delete=False\<close> keeps it when the block is left.
\<close>

definition create_param_file ::
  "host \<Rightarrow> (string \<times> pyval) list \<Rightarrow> lstate \<Rightarrow> (exn + string) \<times> lstate" where
  "create_param_file h params s =
     (case named_temporary_file h of
        Inl m \<Rightarrow> (Inl (PyException m), s)
      | Inr p \<Rightarrow>
          (let s1 = emit (TempFileCreated p) (s\<lparr>files := insert p (files s)\<rparr>)
           in case json_dump h params of
                Some m \<Rightarrow> (Inl (PyException m), s1)
              | None \<Rightarrow> (Inr p, emit (JsonDumped p params) s1)))"

definition build_cmd :: "host \<Rightarrow> pyval \<Rightarrow> string \<Rightarrow> pyval list" where
  "build_cmd h conda_env param_file_path =
     [PStr ''/opt/homebrew/bin/micromamba'',
      PStr ''run'',
      PStr ''-n'',
      conda_env,
      PStr ''python'',
      PStr ''-u'',
      PStr (path_join (script_dir h) ''run_md_simulation.py''),
      PStr param_file_path]"

text \<open>Lines 132-136: the summary printed once the parameter file is written.\<close>

definition print_summary ::
  "pyval \<Rightarrow> pyval \<Rightarrow> pyval \<Rightarrow> pyval \<Rightarrow> pyval \<Rightarrow> pyval \<Rightarrow> pyval \<Rightarrow> lstate \<Rightarrow> lstate" where
  "print_summary protein_path ligand_path md_steps md_save_interval platform_name
       platform_precision conda_env s =
     emit (Printed (''Using conda environment: '' @ py_str conda_env))
    (emit (Printed (''Platform: '' @ py_str platform_name @ '', Precision: ''
                     @ py_str platform_precision))
    (emit (Printed (''MD Steps: '' @ py_str md_steps @ '', Save Interval: ''
                     @ py_str md_save_interval))
    (emit (Printed (''Ligand: '' @ py_str ligand_path))
    (emit (Printed (''Created configuration for protein: '' @ py_str protein_path)) s))))"

text \<open>
  Lines 138-186: build the command, start the child, read its lines, wait for it. The
  command is a list of strings once \<open>' '.join(cmd)\<close> has accepted it.
\<close>

definition launch :: "host \<Rightarrow> pyval \<Rightarrow> string \<Rightarrow> lstate \<Rightarrow> (exn + capture) \<times> lstate" where
  "launch h conda_env param_file_path s =
     (let s1 = emit (Printed ''Starting MD simulation...'') s in
      case join_items 0 (build_cmd h conda_env param_file_path) of
        Inl e \<Rightarrow> (Inl e, s1)
      | Inr cmd \<Rightarrow>
          (let s2 = emit (Printed (''Command: '' @ intersperse '' '' cmd)) s1 in
           case popen h cmd of
             Inl m \<Rightarrow> (Inl (PyException m), s2)
           | Inr ch \<Rightarrow>
               (case read_lines (out_lines ch)
                       \<lparr>topology_file = '''', trajectory_file = ''''\<rparr>
                       (emit (ProcessSpawned cmd) s2) of
                  (Inl e, s3) \<Rightarrow> (Inl e, s3)
                | (Inr c, s3) \<Rightarrow>
                    (case ending ch of
                       ReadRaises m \<Rightarrow> (Inl (PyException m), s3)
                     | Exits return_code \<Rightarrow>
                         (let s4 = emit (ProcessExited return_code) s3 in
                          if return_code \<noteq> 0
                          then (Inl (CalledProcessError return_code cmd None), s4)
                          else (Inr c, s4))))))"

text \<open>Lines 188-197: after a child that exited with 0.\<close>

definition finish :: "host \<Rightarrow> string \<Rightarrow> capture \<Rightarrow> lstate \<Rightarrow> (exn + unit) \<times> lstate" where
  "finish h param_file_path c s =
     (case os_unlink h param_file_path s of
        (Inl e, s1) \<Rightarrow> (Inl e, s1)
      | (Inr u, s1) \<Rightarrow>
          (Inr (),
           emit (Printed (''Trajectory file: '' @ trajectory_file c))
          (emit (Printed (''Topology file: '' @ topology_file c))
          (emit (Printed ''MD simulation completed!'')
          (setOutput ''trajectory_output'' (trajectory_file c)
          (setOutput ''topology_output'' (topology_file c) s1))))))"

text \<open>
  Lines 205-206 and 212-213: \<open>bound\<close> is \<open>Some p\<close> when the name \<open>param_file_path\<close> is among
  the locals, with value \<open>p\<close>.
\<close>

definition cleanup :: "host \<Rightarrow> string option \<Rightarrow> lstate \<Rightarrow> lstate" where
  "cleanup h bound s =
     (case bound of
        None \<Rightarrow> s
      | Some p \<Rightarrow> (if p \<in> files s then snd (os_unlink h p s) else s))"

text \<open>Lines 199-214: the two handlers.\<close>

fun handler :: "host \<Rightarrow> exn \<Rightarrow> string option \<Rightarrow> lstate \<Rightarrow> outcome \<times> lstate" where
  "handler h (CalledProcessError rc cmd err) bound s =
     (let error_msg = ''Error running MD simulation script: '' @ cpe_str h rc cmd;
          error_msg = (case err of
                         None \<Rightarrow> error_msg
                       | Some t \<Rightarrow>
                           (if t \<noteq> [] then error_msg @ [CHR 0x0A] @ ''Script error output: '' @ t
                            else error_msg))
      in (Raised error_msg, cleanup h bound (emit (Printed error_msg) s)))"
| "handler h (PyException m) bound s =
     (let error_msg = ''Error during MD simulation setup: '' @ m
      in (Raised error_msg, cleanup h bound (emit (Printed error_msg) s)))"

definition runMDSimulation :: "host \<Rightarrow> block \<Rightarrow> lstate \<Rightarrow> outcome \<times> lstate" where
  "runMDSimulation h b s =
     (let protein_path = dict_get (inputs b) ''protein_file'' PNone;
          ligand_path = dict_get (inputs b) ''ligand_file'' PNone
      in if protein_path = PNone then (Raised ''Protein file path is required.'', s)
         else if ligand_path = PNone then (Raised ''Ligand file path is required.'', s)
         else
          (let md_steps = dict_get (variables b) ''md_steps'' (PInt 1000);
               md_save_interval = dict_get (variables b) ''md_save_interval'' (PInt 10);
               platform_name = dict_get (variables b) ''platform_name'' (PStr ''CPU'');
               platform_precision = dict_get (variables b) ''platform_precision'' (PStr ''mixed'');
               starting_state_path = dict_get (variables b) ''starting_state_path'' (PStr '''');
               conda_env = dict_get (variables b) ''conda_env'' (PStr ''easymd'');
               params = build_params protein_path ligand_path md_steps md_save_interval
                          platform_name platform_precision starting_state_path
           in case create_param_file h params s of
                (Inl e, s1) \<Rightarrow> handler h e None s1
              | (Inr p, s1) \<Rightarrow>
                  (case launch h conda_env p
                          (print_summary protein_path ligand_path md_steps md_save_interval
                             platform_name platform_precision conda_env s1) of
                     (Inl e, s2) \<Rightarrow> handler h e (Some p) s2
                   | (Inr c, s2) \<Rightarrow>
                       (case finish h p c s2 of
                          (Inl e, s3) \<Rightarrow> handler h e (Some p) s3
                        | (Inr u, s3) \<Rightarrow> (Returned, s3)))))"

subsection \<open>The sentinel protocol as the specification words it\<close>

text \<open>
  A line is a sentinel line for a key when, with its trailing whitespace removed, it
  begins with the key; its value is everything after its first colon, trimmed; the value
  captured for a key is that of the last sentinel line for it, or what was there before
  when there is none.
\<close>

definition is_sentinel :: "string \<Rightarrow> string \<Rightarrow> bool" where
  "is_sentinel key raw = str_startswith (str_rstrip raw) key"

definition after_first_colon :: "string \<Rightarrow> string" where
  "after_first_colon t = tl (dropWhile (\<lambda>c. c \<noteq> CHR '':'') t)"

definition sentinel_value :: "string \<Rightarrow> string" where
  "sentinel_value raw = str_strip (after_first_colon (str_rstrip raw))"

definition last_capture :: "string \<Rightarrow> string \<Rightarrow> string list \<Rightarrow> string" where
  "last_capture key before raws =
     (case filter (is_sentinel key) raws of
        [] \<Rightarrow> before
      | l # ls \<Rightarrow> sentinel_value (last (l # ls)))"

text \<open>The parameter dictionary the launcher builds for a block (lines 106-122), and the
  command it runs for it (lines 139-152) when the environment name is the string \<open>t\<close>.\<close>

definition params_of :: "block \<Rightarrow> (string \<times> pyval) list" where
  "params_of b =
     build_params (dict_get (inputs b) ''protein_file'' PNone)
       (dict_get (inputs b) ''ligand_file'' PNone)
       (dict_get (variables b) ''md_steps'' (PInt 1000))
       (dict_get (variables b) ''md_save_interval'' (PInt 10))
       (dict_get (variables b) ''platform_name'' (PStr ''CPU''))
       (dict_get (variables b) ''platform_precision'' (PStr ''mixed''))
       (dict_get (variables b) ''starting_state_path'' (PStr ''''))"

definition cmd_of :: "host \<Rightarrow> string \<Rightarrow> string \<Rightarrow> string list" where
  "cmd_of h t p =
     [''/opt/homebrew/bin/micromamba'', ''run'', ''-n'', t, ''python'', ''-u'',
      path_join (script_dir h) ''run_md_simulation.py'', p]"

definition echoes :: "child \<Rightarrow> event list" where
  "echoes ch = map (\<lambda>raw. Printed (str_rstrip raw)) (out_lines ch)"

definition captured :: "child \<Rightarrow> capture" where
  "captured ch =
     \<lparr>topology_file = last_capture ''TOPOLOGY_FILE:'' '''' (out_lines ch),
      trajectory_file = last_capture ''TRAJECTORY_FILE:'' '''' (out_lines ch)\<rparr>"

text \<open>Every \<open>setOutput\<close> in a trace comes after the child was seen to exit with code 0
  (\<open>seen\<close>: it already was, before the trace).\<close>

fun outputs_guarded :: "bool \<Rightarrow> event list \<Rightarrow> bool" where
  "outputs_guarded seen [] = True"
| "outputs_guarded seen (ProcessExited rc # es) = outputs_guarded (seen \<or> rc = 0) es"
| "outputs_guarded seen (OutputSet k v # es) = (seen \<and> outputs_guarded seen es)"
| "outputs_guarded seen (e # es) = outputs_guarded seen es"

fun is_output_set :: "event \<Rightarrow> bool" where
  "is_output_set (OutputSet k v) = True"
| "is_output_set e = False"

subsection \<open>A concrete host for the closed examples\<close>

text \<open>
  The examples run the launcher on a host where the temporary file is
  \<open>/tmp/tmpk3x9.json\<close>, the plugin lives in \<open>/plugins/easy-md/Include\<close>, \<open>json.dump\<close>
  refuses exactly the values that are not \<open>None\<close>, \<open>str\<close> or \<open>int\<close> (as it does for
  \<open>bytes\<close> or a \<open>numpy\<close> integer, with this message), \<open>Popen\<close> starts the given child, and a
  \<open>CalledProcessError\<close> with a positive return code prints as the standard library prints
  it for a command of plain strings.
\<close>

definition py_quote :: "string \<Rightarrow> string" where
  "py_quote t = [CHR 0x27] @ t @ [CHR 0x27]"

definition demo_cpe_str :: "int \<Rightarrow> string list \<Rightarrow> string" where
  "demo_cpe_str rc cmd =
     ''Command '' @ [CHR 0x27] @ ''['' @ intersperse '', '' (map py_quote cmd) @ '']''
       @ [CHR 0x27] @ '' returned non-zero exit status '' @ str_int rc @ ''.''"

fun demo_json_dump :: "(string \<times> pyval) list \<Rightarrow> string option" where
  "demo_json_dump [] = None"
| "demo_json_dump ((k, PObj ty r) # ps) =
     Some (''Object of type '' @ ty @ '' is not JSON serializable'')"
| "demo_json_dump (kv # ps) = demo_json_dump ps"

definition demo_host :: "child \<Rightarrow> host" where
  "demo_host ch =
     \<lparr>named_temporary_file = Inr ''/tmp/tmpk3x9.json'',
      json_dump = demo_json_dump,
      script_dir = ''/plugins/easy-md/Include'',
      popen = (\<lambda>cmd. Inr ch),
      cpe_str = demo_cpe_str,
      unlink_error = (\<lambda>p. ''[Errno 2] No such file or directory: '' @ py_quote p)\<rparr>"

definition demo_block :: "pyval \<Rightarrow> pyval \<Rightarrow> block" where
  "demo_block protein ligand =
     \<lparr>inputs = [''protein_file'' \<mapsto> protein, ''ligand_file'' \<mapsto> ligand],
      variables = Map.empty\<rparr>"

definition fresh :: lstate where
  "fresh = \<lparr>files = {}, outputs = Map.empty, trace = []\<rparr>"

text \<open>Two children for the examples: a worker run that reports both files and exits with
  0, and one that stops at its validation and exits with 1.\<close>

definition reporting_child :: child where
  "reporting_child =
     \<lparr>out_lines =
        [''MD Simulation Script Started'' @ [CHR 0x0A],
         ''TOPOLOGY_FILE:/a/emin.pdb'' @ [CHR 0x0A],
         ''=================================================='' @ [CHR 0x0A],
         ''TRAJECTORY_FILE:/a/md_trajetory_id_0.dcd'' @ [CHR 0x0A]],
      ending = Exits 0\<rparr>"

definition failing_child :: child where
  "failing_child =
     \<lparr>out_lines = [''ERROR: Protein file not found: /x/p.pdb'' @ [CHR 0x0A]],
      ending = Exits 1\<rparr>"

definition demo_cmd :: "string list" where
  "demo_cmd =
     [''/opt/homebrew/bin/micromamba'', ''run'', ''-n'', ''easymd'', ''python'', ''-u'',
      ''/plugins/easy-md/Include/run_md_simulation.py'', ''/tmp/tmpk3x9.json'']"

section \<open>The worker (run_md_simulation.py)\<close>

subsection \<open>Parameters, toolkit calls and the system\<close>

text \<open>
  The parameter file after \<open>json.load\<close>: an object with the seven keys the launcher
  writes, paths and names being strings and the two counts integers.
\<close>

record params =
  protein_file :: string
  ligand_file :: string
  md_steps :: int
  md_save_interval :: int
  platform_name :: string
  platform_precision :: string
  starting_state_path :: string

text \<open>The two handlers of \<open>main\<close> tell a \<open>FileNotFoundError\<close> from any other exception; the
  string is \<open>str(e)\<close>.\<close>

datatype werror = FileNotFoundError string | OtherException string

text \<open>
  The calls into the external toolkit, in the order of lines 59-94: \<open>create_config\<close> with
  its six keyword arguments, \<open>run_solvation.add_water\<close>,
  \<open>run_forcefield_parameterization.main\<close>, \<open>run_energy_minimization.main\<close> and
  \<open>run_simulation.main\<close>, the last with the starting state when one is given.
\<close>

datatype call =
    Create_config string string int int string string
  | Add_water
  | Forcefield_parameterization
  | Energy_minimization
  | Simulation "string option"

text \<open>
  The operating system and the toolkit, as parameters over a file system state \<open>'fs\<close>:
  \<^item> \<open>load_json\<close>: \<open>open\<close> and \<open>json.load\<close> of the parameter file;
  \<^item> \<open>path_exists\<close>, \<open>abspath\<close>, \<open>glob\<close>: \<open>os.path.exists\<close>, \<open>os.path.abspath\<close> and
    \<open>glob.glob\<close>;
  \<^item> \<open>run_call\<close>: a toolkit call, which raises or leaves a new file system state.
\<close>

record 'fs system =
  load_json :: "'fs \<Rightarrow> string \<Rightarrow> werror + params"
  path_exists :: "'fs \<Rightarrow> string \<Rightarrow> bool"
  abspath :: "'fs \<Rightarrow> string \<Rightarrow> string"
  glob :: "'fs \<Rightarrow> string \<Rightarrow> string list"
  run_call :: "call \<Rightarrow> 'fs \<Rightarrow> werror + 'fs"

text \<open>What a run leaves: the lines printed on standard output (one entry for each
  \<open>print\<close>), the toolkit calls made, and the file system.\<close>

record 'fs wstate =
  printed :: "string list"
  called :: "call list"
  fsys :: "'fs"

datatype wexit = Finished | Usage | Died werror

fun exit_code :: "wexit \<Rightarrow> int" where
  "exit_code Finished = 0"
| "exit_code Usage = 1"
| "exit_code (Died e) = 1"

definition say :: "string \<Rightarrow> 'fs wstate \<Rightarrow> 'fs wstate" where
  "say t st = st\<lparr>printed := printed st @ [t]\<rparr>"

definition say_all :: "string list \<Rightarrow> 'fs wstate \<Rightarrow> 'fs wstate" where
  "say_all ts st = st\<lparr>printed := printed st @ ts\<rparr>"

definition check_mark :: string where
  "check_mark = [CHR 0xE2, CHR 0x9C, CHR 0x93]"

definition rule50 :: string where
  "rule50 = replicate 50 CHR ''=''"

subsection \<open>The steps of \<open>main\<close>\<close>

text \<open>Lines 32-43.\<close>

definition header :: "string \<Rightarrow> params \<Rightarrow> string list" where
  "header params_file ps =
     [''MD Simulation Script Started'',
      rule50,
      ''Parameters loaded from: '' @ params_file,
      ''Protein file: '' @ protein_file ps,
      ''Ligand file: '' @ ligand_file ps,
      ''MD steps: '' @ str_int (md_steps ps),
      ''Save interval: '' @ str_int (md_save_interval ps),
      ''Platform: '' @ platform_name ps,
      ''Precision: '' @ platform_precision ps]
     @ (if starting_state_path ps \<noteq> [] then [''Starting state: '' @ starting_state_path ps]
        else [])
     @ [rule50]"

text \<open>Lines 45-55: the first missing file decides the error.\<close>

definition validate :: "'fs system \<Rightarrow> 'fs \<Rightarrow> params \<Rightarrow> werror option" where
  "validate sys fs ps =
     (if \<not> path_exists sys fs (protein_file ps)
      then Some (FileNotFoundError (''Protein file not found: '' @ protein_file ps))
      else if \<not> path_exists sys fs (ligand_file ps)
      then Some (FileNotFoundError (''Ligand file not found: '' @ ligand_file ps))
      else if starting_state_path ps \<noteq> [] \<and> \<not> path_exists sys fs (starting_state_path ps)
      then Some (FileNotFoundError
                   (''Starting state file not found: '' @ starting_state_path ps))
      else None)"

text \<open>One stage: announce it, call the toolkit, and report it done when the call returns.\<close>

definition stage ::
  "'fs system \<Rightarrow> string \<Rightarrow> call \<Rightarrow> string \<Rightarrow> 'fs wstate \<Rightarrow> (werror + unit) \<times> 'fs wstate" where
  "stage sys announce c done_msg st =
     (let st1 = (say announce st)\<lparr>called := called st @ [c]\<rparr>
      in case run_call sys c (fsys st1) of
           Inl e \<Rightarrow> (Inl e, st1)
         | Inr fs' \<Rightarrow> (Inr (), say done_msg (st1\<lparr>fsys := fs'\<rparr>)))"

definition and_then ::
  "(werror + unit) \<times> 'fs wstate \<Rightarrow> ('fs wstate \<Rightarrow> (werror + unit) \<times> 'fs wstate)
     \<Rightarrow> (werror + unit) \<times> 'fs wstate" where
  "and_then r f = (case r of (Inl e, st) \<Rightarrow> (Inl e, st) | (Inr u, st) \<Rightarrow> f st)"

text \<open>Lines 57-95.\<close>

definition pipeline :: "'fs system \<Rightarrow> params \<Rightarrow> 'fs wstate \<Rightarrow> (werror + unit) \<times> 'fs wstate" where
  "pipeline sys ps st =
     and_then (and_then (and_then (and_then
       (stage sys ''Step 1: Creating configuration...''
          (Create_config (protein_file ps) (ligand_file ps) (md_steps ps)
             (md_save_interval ps) (platform_name ps) (platform_precision ps))
          (check_mark @ '' Configuration created successfully'') st)
       (stage sys ([CHR 0x0A] @ ''Step 2: Adding water (solvation)...'') Add_water
          (check_mark @ '' Solvation completed successfully'')))
       (stage sys ([CHR 0x0A] @ ''Step 3: Running force field parameterization...'')
          Forcefield_parameterization
          (check_mark @ '' Force field parameterization completed successfully'')))
       (stage sys ([CHR 0x0A] @ ''Step 4: Running energy minimization...'')
          Energy_minimization
          (check_mark @ '' Energy minimization completed successfully'')))
       (if starting_state_path ps \<noteq> []
        then stage sys ([CHR 0x0A] @ ''Step 5: Running MD simulation...'')
               (Simulation (Some (starting_state_path ps)))
               (check_mark @ '' Simulation completed successfully with initial state: ''
                  @ starting_state_path ps)
        else stage sys ([CHR 0x0A] @ ''Step 5: Running MD simulation...'')
               (Simulation None)
               (check_mark @ '' Simulation completed successfully from minimized structure''))"

text \<open>Lines 108-119: the loop over the alternative names, left at the first that exists.
  The result is the new \<open>topology_file\<close> and what was printed.\<close>

definition alt_topo_files :: "string list" where
  "alt_topo_files = [''output/emin.pdb'', ''emin.pdb'', ''output/system.pdb'', ''system.pdb'']"

fun search_topology :: "'fs system \<Rightarrow> 'fs \<Rightarrow> string list \<Rightarrow> string \<times> string list" where
  "search_topology sys fs [] = ('''', [])"
| "search_topology sys fs (alt_file # rest) =
     (if path_exists sys fs alt_file
      then (abspath sys fs alt_file,
            [''Found topology file at: '' @ abspath sys fs alt_file])
      else search_topology sys fs rest)"

text \<open>Lines 99 and 105-119.\<close>

definition resolve_topology :: "'fs system \<Rightarrow> 'fs \<Rightarrow> string \<times> string list" where
  "resolve_topology sys fs =
     (let expected = abspath sys fs ''output/emin.pdb'' in
      if \<not> path_exists sys fs expected
      then (case search_topology sys fs alt_topo_files of
              (found, msgs) \<Rightarrow>
                (found, (''Warning: Expected topology file not found at '' @ expected) # msgs))
      else (expected, []))"

text \<open>Lines 126-141: the loop over the patterns, left at the first that has a match, with
  the first of its matches.\<close>

definition traj_patterns :: "string list" where
  "traj_patterns =
     [''output/md_trajectory_id_*.dcd'',
      ''output/md_trajectory*.dcd'',
      ''output/trajectory*.dcd'',
      ''md_trajectory_id_*.dcd'',
      ''trajectory.dcd'']"

fun search_trajectory :: "'fs system \<Rightarrow> 'fs \<Rightarrow> string list \<Rightarrow> string \<times> string list" where
  "search_trajectory sys fs [] = ('''', [])"
| "search_trajectory sys fs (pattern # rest) =
     (case glob sys fs pattern of
        [] \<Rightarrow> search_trajectory sys fs rest
      | m # ms \<Rightarrow>
          (abspath sys fs m, [''Found trajectory file at: '' @ abspath sys fs m]))"

text \<open>Lines 102 and 121-141. The expected name is spelled \<open>md_trajetory\<close>.\<close>

definition resolve_trajectory :: "'fs system \<Rightarrow> 'fs \<Rightarrow> string \<times> string list" where
  "resolve_trajectory sys fs =
     (let expected = abspath sys fs ''output/md_trajetory_id_0.dcd'' in
      if \<not> path_exists sys fs expected
      then (case search_trajectory sys fs traj_patterns of
              (found, msgs) \<Rightarrow>
                (found, (''Warning: Expected trajectory file not found at '' @ expected) # msgs))
      else (expected, []))"

text \<open>Lines 148-158: the two sentinel lines.\<close>

definition topology_line :: "'fs system \<Rightarrow> 'fs \<Rightarrow> string \<Rightarrow> string" where
  "topology_line sys fs t =
     (if t \<noteq> [] \<and> path_exists sys fs t then ''TOPOLOGY_FILE:'' @ t
      else ''TOPOLOGY_FILE:Not found - expected at output/emin.pdb'')"

definition trajectory_line :: "'fs system \<Rightarrow> 'fs \<Rightarrow> string \<Rightarrow> string" where
  "trajectory_line sys fs t =
     (if t \<noteq> [] \<and> path_exists sys fs t then ''TRAJECTORY_FILE:'' @ t
      else ''TRAJECTORY_FILE:Not found - expected at output/md_trajectory_id_0.dcd'')"

text \<open>Lines 97-158: what follows a pipeline that did not raise.\<close>

definition report :: "'fs system \<Rightarrow> 'fs wstate \<Rightarrow> 'fs wstate" where
  "report sys st =
     (let fs = fsys st;
          topo = resolve_topology sys fs;
          traj = resolve_trajectory sys fs
      in say_all
           (snd topo @ snd traj
            @ [[CHR 0x0A] @ rule50, ''MD SIMULATION SETUP COMPLETED SUCCESSFULLY!'', rule50,
               topology_line sys fs (fst topo),
               trajectory_line sys fs (fst traj)]) st)"

text \<open>Lines 27-158, the body of the \<open>try\<close>.\<close>

definition try_main :: "'fs system \<Rightarrow> string \<Rightarrow> 'fs wstate \<Rightarrow> (werror + unit) \<times> 'fs wstate" where
  "try_main sys params_file st =
     (case load_json sys (fsys st) params_file of
        Inl e \<Rightarrow> (Inl e, st)
      | Inr ps \<Rightarrow>
          (let st1 = say_all (header params_file ps) st in
           case validate sys (fsys st1) ps of
             Some e \<Rightarrow> (Inl e, st1)
           | None \<Rightarrow>
               (case pipeline sys ps st1 of
                  (Inl e, st2) \<Rightarrow> (Inl e, st2)
                | (Inr u, st2) \<Rightarrow> (Inr (), report sys st2))))"

text \<open>
  Lines 20-168. \<open>argv\<close> is \<open>sys.argv\<close>, the script name first. The traceback the second
  handler prints goes to standard error and is not part of \<open>printed\<close>.
\<close>

definition main :: "'fs system \<Rightarrow> string list \<Rightarrow> 'fs \<Rightarrow> wexit \<times> 'fs wstate" where
  "main sys argv fs =
     (let st = \<lparr>printed = [], called = [], fsys = fs\<rparr> in
      if length argv \<noteq> 2
      then (Usage, say ''Usage: python run_md_simulation.py <params_json_file>'' st)
      else
        (case try_main sys (argv ! 1) st of
           (Inr u, st1) \<Rightarrow> (Finished, st1)
         | (Inl (FileNotFoundError m), st1) \<Rightarrow>
             (Died (FileNotFoundError m), say (''ERROR: '' @ m) st1)
         | (Inl (OtherException m), st1) \<Rightarrow>
             (Died (OtherException m), say (''ERROR during MD simulation: '' @ m) st1)))"

subsection \<open>A concrete system for the closed examples\<close>

text \<open>
  The examples run the worker in the directory \<open>/work\<close>. The file system state is the list
  of the files below it, by their relative paths, in the order a directory listing gives
  them; the two input files live elsewhere and exist. A pattern is matched against a
  relative path with \<open>*\<close> standing for any run of characters other than \<open>/\<close>, which is what
  \<open>glob.glob\<close> does for the patterns of the worker. The toolkit never raises, and its last
  call leaves the files \<open>made\<close>.
\<close>

fun wild_match :: "string \<Rightarrow> string \<Rightarrow> bool" where
  "wild_match [] t = (t = [])"
| "wild_match (c # p) [] = (c = CHR ''*'' \<and> wild_match p [])"
| "wild_match (c # p) (d # u) =
     (if c = CHR ''*'' then wild_match p (d # u) \<or> (d \<noteq> CHR ''/'' \<and> wild_match (c # p) u)
      else c = d \<and> wild_match p u)"

definition demo_params :: params where
  "demo_params =
     \<lparr>protein_file = ''/data/p.pdb'', ligand_file = ''/data/l.sdf'', md_steps = 1000,
      md_save_interval = 10, platform_name = ''CPU'', platform_precision = ''mixed'',
      starting_state_path = ''''\<rparr>"

fun demo_toolkit :: "string list \<Rightarrow> call \<Rightarrow> string list \<Rightarrow> werror + string list" where
  "demo_toolkit made (Simulation start) fs = Inr (fs @ made)"
| "demo_toolkit made c fs = Inr fs"

definition demo_system :: "params \<Rightarrow> string list \<Rightarrow> string list system" where
  "demo_system ps made =
     \<lparr>load_json = (\<lambda>fs f. Inr ps),
      path_exists = (\<lambda>fs p. p \<in> set [''/data/p.pdb'', ''/data/l.sdf''] \<union> set fs
                                 \<union> set (map (\<lambda>f. ''/work/'' @ f) fs)),
      abspath = (\<lambda>fs p. if str_startswith p ''/'' then p else ''/work/'' @ p),
      glob = (\<lambda>fs pat. filter (wild_match pat) fs),
      run_call = demo_toolkit made\<rparr>"

definition demo_argv :: "string list" where
  "demo_argv = [''run_md_simulation.py'', ''/tmp/tmpk3x9.json'']"

section \<open>Properties of the launcher\<close>

lemma startswith_has_colon:
  assumes "str_startswith line (k @ '':'')"
  shows "CHR '':'' \<in> set line"
proof -
  have "CHR '':'' \<in> set (take (length (k @ '':'')) line)"
    using assms by (simp add: str_startswith_def)
  then show ?thesis by (rule in_set_takeD)
qed

lemma sentinels_disjoint:
  assumes "str_startswith line ''TOPOLOGY_FILE:''"
  shows "\<not> str_startswith line ''TRAJECTORY_FILE:''"
proof
  assume t: "str_startswith line ''TRAJECTORY_FILE:''"
  have la: "length ''TOPOLOGY_FILE:'' = 14" and lb: "length ''TRAJECTORY_FILE:'' = 16"
    by simp_all
  have a: "take 14 line = ''TOPOLOGY_FILE:''"
    using assms unfolding str_startswith_def la .
  have b: "take 16 line = ''TRAJECTORY_FILE:''"
    using t unfolding str_startswith_def lb .
  have "take 14 line ! 1 = line ! 1" by (rule nth_take) simp
  moreover have "take 16 line ! 1 = line ! 1" by (rule nth_take) simp
  ultimately have "''TOPOLOGY_FILE:'' ! 1 = ''TRAJECTORY_FILE:'' ! 1"
    by (simp only: a b)
  then show False by simp
qed

lemma split1_second:
  "CHR '':'' \<in> set line \<Longrightarrow>
   list_index (str_split1 CHR '':'' line) (Suc 0) = Inr (after_first_colon line)"
  by (simp add: list_index_def str_split1_def after_first_colon_def)

text \<open>The index \<open>[1]\<close> never fails on a line that passed \<open>startswith\<close>: the key ends with
  the colon the split looks for.\<close>

lemma parse_line_eq:
  "parse_line line c =
     Inr (if str_startswith line ''TOPOLOGY_FILE:''
          then c\<lparr>topology_file := str_strip (after_first_colon line)\<rparr>
          else if str_startswith line ''TRAJECTORY_FILE:''
          then c\<lparr>trajectory_file := str_strip (after_first_colon line)\<rparr>
          else c)"
proof (cases "str_startswith line ''TOPOLOGY_FILE:''")
  case True
  then have "CHR '':'' \<in> set line"
    using startswith_has_colon [of line "''TOPOLOGY_FILE''"] by simp
  with True show ?thesis by (simp add: parse_line_def split1_second)
next
  case False
  show ?thesis
  proof (cases "str_startswith line ''TRAJECTORY_FILE:''")
    case True
    then have "CHR '':'' \<in> set line"
      using startswith_has_colon [of line "''TRAJECTORY_FILE''"] by simp
    with True False show ?thesis by (simp add: parse_line_def split1_second)
  next
    case no: False
    with False show ?thesis by (simp add: parse_line_def)
  qed
qed

lemma read_lines_eq:
  "read_lines raws c s =
     (Inr \<lparr>topology_file = last_capture ''TOPOLOGY_FILE:'' (topology_file c) raws,
           trajectory_file = last_capture ''TRAJECTORY_FILE:'' (trajectory_file c) raws\<rparr>,
      s\<lparr>trace := trace s @ map (\<lambda>raw. Printed (str_rstrip raw)) raws\<rparr>)"
proof (induction raws arbitrary: c s)
  case Nil
  show ?case by (simp add: last_capture_def)
next
  case (Cons raw rest)
  show ?case
    using sentinels_disjoint [of "str_rstrip raw"]
    by (simp add: Let_def parse_line_eq Cons.IH emit_def last_capture_def is_sentinel_def
        sentinel_value_def split: list.splits)
qed

subsection \<open>The paths through the launcher\<close>

lemma outputs_guarded_append:
  "outputs_guarded seen (xs @ ys) =
     (outputs_guarded seen xs \<and> outputs_guarded (seen \<or> ProcessExited 0 \<in> set xs) ys)"
  by (induction seen xs rule: outputs_guarded.induct) auto

lemma outputs_guarded_printed:
  "set xs \<subseteq> range Printed \<Longrightarrow> outputs_guarded seen xs"
  by (induction xs) auto

lemma no_output_set_printed:
  "set xs \<subseteq> range Printed \<Longrightarrow> \<not> list_ex is_output_set xs"
  by (induction xs) auto

lemma echoes_printed: "set (echoes ch) \<subseteq> range Printed"
  by (auto simp: echoes_def)

lemma join_build_cmd:
  "join_items 0 (build_cmd h env p) =
     (case env of
        PStr t \<Rightarrow> Inr (cmd_of h t p)
      | v \<Rightarrow> Inl (PyException (''sequence item '' @ str_nat 3 @ '': expected str instance, ''
                        @ py_type_name v @ '' found'')))"
  by (cases env) (simp_all add: build_cmd_def cmd_of_def numeral_3_eq_3)

lemma create_param_file_eq:
  "create_param_file h ps s =
     (case named_temporary_file h of
        Inl m \<Rightarrow> (Inl (PyException m), s)
      | Inr p \<Rightarrow>
          (case json_dump h ps of
             Some m \<Rightarrow> (Inl (PyException m),
                        s\<lparr>files := insert p (files s), trace := trace s @ [TempFileCreated p]\<rparr>)
           | None \<Rightarrow> (Inr p,
                      s\<lparr>files := insert p (files s),
                        trace := trace s @ [TempFileCreated p, JsonDumped p ps]\<rparr>)))"
  by (simp add: create_param_file_def emit_def Let_def split: sum.splits option.splits)

lemma print_summary_eq:
  "print_summary a b c d e f g s =
     s\<lparr>trace := trace s @
        [Printed (''Created configuration for protein: '' @ py_str a),
         Printed (''Ligand: '' @ py_str b),
         Printed (''MD Steps: '' @ py_str c @ '', Save Interval: '' @ py_str d),
         Printed (''Platform: '' @ py_str e @ '', Precision: '' @ py_str f),
         Printed (''Using conda environment: '' @ py_str g)]\<rparr>"
  by (simp add: print_summary_def emit_def)

lemma launch_cases [consumes 1, case_names LEarly LReadFails LExited]:
  assumes "launch h env p s = (res, s2)"
  obtains
    (LEarly) m pre where
      "res = Inl (PyException m)" "set pre \<subseteq> range Printed" "s2 = s\<lparr>trace := trace s @ pre\<rparr>"
  | (LReadFails) m t ch pre where
      "res = Inl (PyException m)" "env = PStr t" "popen h (cmd_of h t p) = Inr ch"
      "ending ch = ReadRaises m" "set pre \<subseteq> range Printed"
      "s2 = s\<lparr>trace := trace s @ pre @ ProcessSpawned (cmd_of h t p) # echoes ch\<rparr>"
  | (LExited) rc t ch pre where
      "env = PStr t" "popen h (cmd_of h t p) = Inr ch" "ending ch = Exits rc"
      "set pre \<subseteq> range Printed"
      "s2 = s\<lparr>trace := trace s @ pre @ ProcessSpawned (cmd_of h t p) # echoes ch
                           @ [ProcessExited rc]\<rparr>"
      "res = (if rc \<noteq> 0 then Inl (CalledProcessError rc (cmd_of h t p) None)
              else Inr (captured ch))"
proof (cases "\<exists>t. env = PStr t")
  case False
  then obtain m where "join_items 0 (build_cmd h env p) = Inl (PyException m)"
    by (cases env) (auto simp: join_build_cmd)
  with assms show ?thesis
    by (intro LEarly [of m "[Printed ''Starting MD simulation...'']"])
       (auto simp: launch_def emit_def Let_def)
next
  case True
  then obtain t where t: "env = PStr t" ..
  let ?cmd = "cmd_of h t p"
  let ?pre = "[Printed ''Starting MD simulation...'',
               Printed (''Command: '' @ intersperse '' '' ?cmd)]"
  have pre: "set ?pre \<subseteq> range Printed" by simp
  show ?thesis
  proof (cases "popen h ?cmd")
    case (Inl m)
    with assms t show ?thesis
      by (intro LEarly [of m ?pre]) (auto simp: launch_def join_build_cmd emit_def Let_def)
  next
    case (Inr ch)
    show ?thesis
    proof (cases "ending ch")
      case (ReadRaises m)
      with assms t Inr show ?thesis
        by (intro LReadFails [of m t ch ?pre])
           (auto simp: launch_def join_build_cmd emit_def Let_def read_lines_eq echoes_def)
    next
      case (Exits rc)
      with assms t Inr show ?thesis
        by (intro LExited [of t ch rc ?pre])
           (auto simp: launch_def join_build_cmd emit_def Let_def read_lines_eq echoes_def
              captured_def split: if_splits)
    qed
  qed
qed


lemma handler_setup:
  "handler h (PyException m) bound s =
     (Raised (''Error during MD simulation setup: '' @ m),
      cleanup h bound (s\<lparr>trace := trace s @ [Printed (''Error during MD simulation setup: '' @ m)]\<rparr>))"
  by (simp add: handler.simps emit_def Let_def)

lemma handler_child:
  "handler h (CalledProcessError rc cmd None) bound s =
     (Raised (''Error running MD simulation script: '' @ cpe_str h rc cmd),
      cleanup h bound
        (s\<lparr>trace := trace s @ [Printed (''Error running MD simulation script: ''
                                          @ cpe_str h rc cmd)]\<rparr>))"
  by (simp add: handler.simps emit_def Let_def)

declare handler.simps [simp del]

lemma cleanup_bound:
  "p \<in> files s \<Longrightarrow>
   cleanup h (Some p) s = s\<lparr>files := files s - {p}, trace := trace s @ [FileUnlinked p]\<rparr>"
  by (simp add: cleanup_def os_unlink_def emit_def)

lemma finish_eq:
  "p \<in> files s \<Longrightarrow>
   finish h p c s =
     (Inr (),
      s\<lparr>files := files s - {p},
        outputs := (outputs s)(''topology_output'' \<mapsto> topology_file c,
                               ''trajectory_output'' \<mapsto> trajectory_file c),
        trace := trace s @
          [FileUnlinked p,
           OutputSet ''topology_output'' (topology_file c),
           OutputSet ''trajectory_output'' (trajectory_file c),
           Printed ''MD simulation completed!'',
           Printed (''Topology file: '' @ topology_file c),
           Printed (''Trajectory file: '' @ trajectory_file c)]\<rparr>)"
  by (simp add: finish_def os_unlink_def setOutput_def emit_def)

lemma run_cases
  [consumes 1, case_names Missing NoTemp DumpFails SetupFails ReadFails ChildFails Done]:
  assumes "runMDSimulation h b s = (r, s')"
  obtains
    (Missing)
      "dict_get (inputs b) ''protein_file'' PNone = PNone
       \<or> dict_get (inputs b) ''ligand_file'' PNone = PNone"
      "r = Raised ''Protein file path is required.''
       \<or> r = Raised ''Ligand file path is required.''"
      "s' = s"
  | (NoTemp) m where
      "dict_get (inputs b) ''protein_file'' PNone \<noteq> PNone"
      "dict_get (inputs b) ''ligand_file'' PNone \<noteq> PNone"
      "named_temporary_file h = Inl m"
      "r = Raised (''Error during MD simulation setup: '' @ m)"
      "s' = s\<lparr>trace := trace s @ [Printed (''Error during MD simulation setup: '' @ m)]\<rparr>"
  | (DumpFails) p m where
      "dict_get (inputs b) ''protein_file'' PNone \<noteq> PNone"
      "dict_get (inputs b) ''ligand_file'' PNone \<noteq> PNone"
      "named_temporary_file h = Inr p"
      "json_dump h (params_of b) = Some m"
      "r = Raised (''Error during MD simulation setup: '' @ m)"
      "s' = s\<lparr>files := insert p (files s),
                trace := trace s @ [TempFileCreated p,
                                    Printed (''Error during MD simulation setup: '' @ m)]\<rparr>"
  | (SetupFails) p m pre where
      "dict_get (inputs b) ''protein_file'' PNone \<noteq> PNone"
      "dict_get (inputs b) ''ligand_file'' PNone \<noteq> PNone"
      "named_temporary_file h = Inr p"
      "json_dump h (params_of b) = None"
      "r = Raised (''Error during MD simulation setup: '' @ m)"
      "set pre \<subseteq> range Printed"
      "s' = s\<lparr>files := files s - {p},
                trace := trace s @ TempFileCreated p # JsonDumped p (params_of b) # pre
                           @ [FileUnlinked p]\<rparr>"
  | (ReadFails) p m t ch pre where
      "dict_get (inputs b) ''protein_file'' PNone \<noteq> PNone"
      "dict_get (inputs b) ''ligand_file'' PNone \<noteq> PNone"
      "named_temporary_file h = Inr p"
      "json_dump h (params_of b) = None"
      "dict_get (variables b) ''conda_env'' (PStr ''easymd'') = PStr t"
      "popen h (cmd_of h t p) = Inr ch"
      "ending ch = ReadRaises m"
      "r = Raised (''Error during MD simulation setup: '' @ m)"
      "set pre \<subseteq> range Printed"
      "s' = s\<lparr>files := files s - {p},
                trace := trace s @ TempFileCreated p # JsonDumped p (params_of b) # pre
                           @ ProcessSpawned (cmd_of h t p) # echoes ch
                           @ [Printed (''Error during MD simulation setup: '' @ m),
                              FileUnlinked p]\<rparr>"
  | (ChildFails) p rc t ch pre where
      "dict_get (inputs b) ''protein_file'' PNone \<noteq> PNone"
      "dict_get (inputs b) ''ligand_file'' PNone \<noteq> PNone"
      "named_temporary_file h = Inr p"
      "json_dump h (params_of b) = None"
      "dict_get (variables b) ''conda_env'' (PStr ''easymd'') = PStr t"
      "popen h (cmd_of h t p) = Inr ch"
      "ending ch = Exits rc" "rc \<noteq> 0"
      "r = Raised (''Error running MD simulation script: '' @ cpe_str h rc (cmd_of h t p))"
      "set pre \<subseteq> range Printed"
      "s' = s\<lparr>files := files s - {p},
                trace := trace s @ TempFileCreated p # JsonDumped p (params_of b) # pre
                           @ ProcessSpawned (cmd_of h t p) # echoes ch
                           @ [ProcessExited rc,
                              Printed (''Error running MD simulation script: ''
                                         @ cpe_str h rc (cmd_of h t p)),
                              FileUnlinked p]\<rparr>"
  | (Done) p t ch pre where
      "dict_get (inputs b) ''protein_file'' PNone \<noteq> PNone"
      "dict_get (inputs b) ''ligand_file'' PNone \<noteq> PNone"
      "named_temporary_file h = Inr p"
      "json_dump h (params_of b) = None"
      "dict_get (variables b) ''conda_env'' (PStr ''easymd'') = PStr t"
      "popen h (cmd_of h t p) = Inr ch"
      "ending ch = Exits 0"
      "r = Returned"
      "set pre \<subseteq> range Printed"
      "s' = s\<lparr>files := files s - {p},
                outputs := (outputs s)
                  (''topology_output'' \<mapsto> topology_file (captured ch),
                   ''trajectory_output'' \<mapsto> trajectory_file (captured ch)),
                trace := trace s @ TempFileCreated p # JsonDumped p (params_of b) # pre
                           @ ProcessSpawned (cmd_of h t p) # echoes ch
                           @ [ProcessExited 0, FileUnlinked p,
                              OutputSet ''topology_output'' (topology_file (captured ch)),
                              OutputSet ''trajectory_output'' (trajectory_file (captured ch)),
                              Printed ''MD simulation completed!'',
                              Printed (''Topology file: '' @ topology_file (captured ch)),
                              Printed (''Trajectory file: ''
                                         @ trajectory_file (captured ch))]\<rparr>"
proof -
  let ?pp = "dict_get (inputs b) ''protein_file'' PNone"
  let ?lp = "dict_get (inputs b) ''ligand_file'' PNone"
  let ?env = "dict_get (variables b) ''conda_env'' (PStr ''easymd'')"
  show thesis
  proof (cases "?pp = PNone \<or> ?lp = PNone")
    case True
    with assms show thesis
      by (intro Missing) (auto simp: runMDSimulation_def Let_def split: if_splits)
  next
    case False
    then have pp: "?pp \<noteq> PNone" and lp: "?lp \<noteq> PNone" by simp_all
    define pre0 where "pre0 =
        [Printed (''Created configuration for protein: '' @ py_str ?pp),
         Printed (''Ligand: '' @ py_str ?lp),
         Printed (''MD Steps: '' @ py_str (dict_get (variables b) ''md_steps'' (PInt 1000))
                   @ '', Save Interval: ''
                   @ py_str (dict_get (variables b) ''md_save_interval'' (PInt 10))),
         Printed (''Platform: ''
                   @ py_str (dict_get (variables b) ''platform_name'' (PStr ''CPU''))
                   @ '', Precision: ''
                   @ py_str (dict_get (variables b) ''platform_precision'' (PStr ''mixed''))),
         Printed (''Using conda environment: '' @ py_str ?env)]"
    have pre0: "set pre0 \<subseteq> range Printed" by (simp add: pre0_def)
    have run: "runMDSimulation h b s =
        (case create_param_file h (params_of b) s of
           (Inl e, s2) \<Rightarrow> handler h e None s2
         | (Inr p, s2) \<Rightarrow>
             (case launch h ?env p (s2\<lparr>trace := trace s2 @ pre0\<rparr>) of
                (Inl e, s3) \<Rightarrow> handler h e (Some p) s3
              | (Inr c, s3) \<Rightarrow>
                  (case finish h p c s3 of
                     (Inl e, s4) \<Rightarrow> handler h e (Some p) s4
                   | (Inr u, s4) \<Rightarrow> (Returned, s4))))"
      using pp lp
      by (simp add: runMDSimulation_def params_of_def Let_def print_summary_eq pre0_def
          split: prod.splits sum.splits)
    show thesis
    proof (cases "named_temporary_file h")
      case (Inl m)
      with assms run show thesis
        by (intro NoTemp [of m] pp lp)
           (auto simp: create_param_file_eq handler_setup cleanup_def)
    next
      case (Inr p)
      show thesis
      proof (cases "json_dump h (params_of b)")
        case (Some m)
        with assms run Inr show thesis
          by (intro DumpFails [of p m] pp lp)
             (auto simp: create_param_file_eq handler_setup cleanup_def)
      next
        case None
        define s1 where "s1 = s\<lparr>files := insert p (files s),
            trace := trace s @ [TempFileCreated p, JsonDumped p (params_of b)] @ pre0\<rparr>"
        obtain res s2 where L: "launch h ?env p s1 = (res, s2)"
          by (cases "launch h ?env p s1")
        have run2: "(r, s') =
            (case res of
               Inl e \<Rightarrow> handler h e (Some p) s2
             | Inr c \<Rightarrow>
                 (case finish h p c s2 of
                    (Inl e, s4) \<Rightarrow> handler h e (Some p) s4
                  | (Inr u, s4) \<Rightarrow> (Returned, s4)))"
          using assms run Inr None L
          by (simp add: create_param_file_eq s1_def split: sum.splits)
        from L show thesis
        proof (cases rule: launch_cases)
          case (LEarly m pre)
          with run2 pre0 show thesis
            by (intro SetupFails [of p m "pre0 @ pre @
                  [Printed (''Error during MD simulation setup: '' @ m)]"] pp lp Inr None)
               (auto simp: handler_setup cleanup_bound s1_def)
        next
          case (LReadFails m t ch pre)
          with run2 pre0 show thesis
            by (intro ReadFails [of p t ch m "pre0 @ pre"] pp lp Inr None)
               (auto simp: handler_setup cleanup_bound s1_def)
        next
          case (LExited rc t ch pre)
          show thesis
          proof (cases "rc = 0")
            case True
            with run2 pre0 LExited show thesis
              by (intro Done [of p t ch "pre0 @ pre"] pp lp Inr None)
                 (auto simp: finish_eq s1_def)
          next
            case False
            with run2 pre0 LExited show thesis
              by (intro ChildFails [of p t ch rc "pre0 @ pre"] pp lp Inr None)
                 (auto simp: handler_child cleanup_bound s1_def)
          qed
        qed
      qed
    qed
  qed
qed

subsection \<open>Claims about the launcher\<close>

lemmas run_eval =
  runMDSimulation_def demo_host_def demo_block_def fresh_def dict_get_def build_params_def
  create_param_file_def launch_def build_cmd_def path_join_def str_startswith_def emit_def
  print_summary_def finish_def os_unlink_def setOutput_def Let_def str_int_def str_nat.simps
  parse_line_def list_index_def str_split1_def str_strip_def str_rstrip_def str_lstrip_def
  py_isspace_def digit_char_def handler.simps cleanup_def reporting_child_def
  failing_child_def demo_cmd_def





text \<open>
  Claim C10. In a call that does not return normally (a mandatory input is missing, the
  child exits with a non-zero code, or anything raises while the launcher prepares,
  launches or reads) the outputs of the block are what they were and the trace holds no
  \<open>setOutput\<close>; and in every call, each \<open>setOutput\<close> of the trace comes after the event of
  the child exiting with code 0.
\<close>

theorem outputs_set_only_after_exit_zero:
  assumes "runMDSimulation h b s = (r, s')" and "trace s = []"
  shows "outputs_guarded False (trace s') \<and>
         (r \<noteq> Returned \<longrightarrow> outputs s' = outputs s \<and> \<not> list_ex is_output_set (trace s'))"
  using assms(1)
proof (cases rule: run_cases)
  case Missing
  with assms(2) show ?thesis by auto
next
  case (NoTemp m)
  with assms(2) show ?thesis by simp
next
  case (DumpFails p m)
  with assms(2) show ?thesis by simp
next
  case (SetupFails p m pre)
  with assms(2) show ?thesis
    by (simp add: outputs_guarded_append outputs_guarded_printed no_output_set_printed)
next
  case (ReadFails p m t ch pre)
  with assms(2) echoes_printed [of ch] show ?thesis
    by (simp add: outputs_guarded_append outputs_guarded_printed no_output_set_printed)
next
  case (ChildFails p rc t ch pre)
  with assms(2) echoes_printed [of ch] show ?thesis
    by (simp add: outputs_guarded_append outputs_guarded_printed no_output_set_printed)
next
  case (Done p t ch pre)
  with assms(2) echoes_printed [of ch] show ?thesis
    by (simp add: outputs_guarded_append outputs_guarded_printed no_output_set_printed)
qed

theorem outputs_set_only_after_exit_zero_witness:
  "trace fresh = []
   \<and> fst (runMDSimulation (demo_host failing_child)
        (demo_block (PStr ''/x/p.pdb'') (PStr ''/x/l.sdf'')) fresh) \<noteq> Returned
   \<and> ProcessExited 1 \<in> set (trace (snd (runMDSimulation (demo_host failing_child)
        (demo_block (PStr ''/x/p.pdb'') (PStr ''/x/l.sdf'')) fresh)))
   \<and> outputs (snd (runMDSimulation (demo_host failing_child)
        (demo_block (PStr ''/x/p.pdb'') (PStr ''/x/l.sdf'')) fresh)) = Map.empty
   \<and> \<not> list_ex is_output_set (trace (snd (runMDSimulation (demo_host failing_child)
        (demo_block (PStr ''/x/p.pdb'') (PStr ''/x/l.sdf'')) fresh)))
   \<and> outputs_guarded False (trace (snd (runMDSimulation (demo_host failing_child)
        (demo_block (PStr ''/x/p.pdb'') (PStr ''/x/l.sdf'')) fresh)))"
proof -
  let ?R = "runMDSimulation (demo_host failing_child)
        (demo_block (PStr ''/x/p.pdb'') (PStr ''/x/l.sdf'')) fresh"
  have run: "?R = (fst ?R, snd ?R)" by simp
  have t0: "trace fresh = []" and o0: "outputs fresh = Map.empty" by (simp_all add: fresh_def)
  have nr: "fst ?R \<noteq> Returned" by (simp add: run_eval)
  have ex: "ProcessExited 1 \<in> set (trace (snd ?R))" by (simp add: run_eval)
  from outputs_set_only_after_exit_zero [OF run t0] t0 o0 nr ex
  show ?thesis by simp
qed

text \<open>
  Claim C4, as the code has it. When the protein or the ligand input is absent (its key is
  missing or it is \<open>None\<close>), the launcher raises at once and nothing has happened: no
  temporary file, no child process, the state is untouched. Whenever the launcher does
  anything at all, both mandatory paths of the parameter record are present, that is, not
  \<open>None\<close>, and every parameter record it writes is that record. The guard compares with
  \<open>None\<close> only: it does not ask for a non-empty string.
\<close>

theorem missing_input_raises_before_any_effect:
  assumes "runMDSimulation h b s = (r, s')" and "trace s = []"
  shows "(dict_get (inputs b) ''protein_file'' PNone = PNone
          \<or> dict_get (inputs b) ''ligand_file'' PNone = PNone \<longrightarrow>
            (r = Raised ''Protein file path is required.''
             \<or> r = Raised ''Ligand file path is required.'') \<and> s' = s)
       \<and> (trace s' \<noteq> [] \<longrightarrow>
            (\<exists>v. map_of (params_of b) ''protein_file'' = Some v \<and> v \<noteq> PNone) \<and>
            (\<exists>v. map_of (params_of b) ''ligand_file'' = Some v \<and> v \<noteq> PNone) \<and>
            (\<forall>p ps. JsonDumped p ps \<in> set (trace s') \<longrightarrow> ps = params_of b))"
proof -
  have pm: "dict_get (inputs b) ''protein_file'' PNone \<noteq> PNone \<Longrightarrow>
            \<exists>v. map_of (params_of b) ''protein_file'' = Some v \<and> v \<noteq> PNone"
    and lm: "dict_get (inputs b) ''ligand_file'' PNone \<noteq> PNone \<Longrightarrow>
            \<exists>v. map_of (params_of b) ''ligand_file'' = Some v \<and> v \<noteq> PNone"
    by (simp_all add: params_of_def build_params_def)
  from assms(1) show ?thesis
  proof (cases rule: run_cases)
    case Missing
    with assms(2) show ?thesis by simp
  next
    case (NoTemp m)
    with assms(2) pm lm show ?thesis by simp
  next
    case (DumpFails p m)
    with assms(2) pm lm show ?thesis by simp
  next
    case (SetupFails p m pre)
    have "\<forall>q ps. JsonDumped q ps \<in> set (trace s') \<longrightarrow> ps = params_of b"
      using assms(2) SetupFails(6,7) by auto
    with SetupFails(1,2) pm lm show ?thesis by simp
  next
    case (ReadFails p m t ch pre)
    have "\<forall>q ps. JsonDumped q ps \<in> set (trace s') \<longrightarrow> ps = params_of b"
      using assms(2) ReadFails(9,10) echoes_printed [of ch] by auto
    with ReadFails(1,2) pm lm show ?thesis by simp
  next
    case (ChildFails p rc t ch pre)
    have "\<forall>q ps. JsonDumped q ps \<in> set (trace s') \<longrightarrow> ps = params_of b"
      using assms(2) ChildFails(10,11) echoes_printed [of ch] by auto
    with ChildFails(1,2) pm lm show ?thesis by simp
  next
    case (Done p t ch pre)
    have "\<forall>q ps. JsonDumped q ps \<in> set (trace s') \<longrightarrow> ps = params_of b"
      using assms(2) Done(9,10) echoes_printed [of ch] by auto
    with Done(1,2) pm lm show ?thesis by simp
  qed
qed

theorem missing_input_raises_before_any_effect_witness:
  "trace fresh = []
   \<and> dict_get (inputs \<lparr>inputs = [''ligand_file'' \<mapsto> PStr ''/x/l.sdf''],
                         variables = Map.empty\<rparr>) ''protein_file'' PNone = PNone
   \<and> runMDSimulation (demo_host reporting_child)
        \<lparr>inputs = [''ligand_file'' \<mapsto> PStr ''/x/l.sdf''], variables = Map.empty\<rparr> fresh
       = (Raised ''Protein file path is required.'', fresh)
   \<and> trace (snd (runMDSimulation (demo_host reporting_child)
        (demo_block (PStr ''/x/p.pdb'') (PStr ''/x/l.sdf'')) fresh)) \<noteq> []
   \<and> map_of (params_of (demo_block (PStr ''/x/p.pdb'') (PStr ''/x/l.sdf''))) ''protein_file''
       = Some (PStr ''/x/p.pdb'')
   \<and> map_of (params_of (demo_block (PStr ''/x/p.pdb'') (PStr ''/x/l.sdf''))) ''ligand_file''
       = Some (PStr ''/x/l.sdf'')"
proof -
  let ?b0 = "\<lparr>inputs = [''ligand_file'' \<mapsto> PStr ''/x/l.sdf''], variables = Map.empty\<rparr>"
  let ?Q = "runMDSimulation (demo_host reporting_child) ?b0 fresh"
  let ?R = "runMDSimulation (demo_host reporting_child)
        (demo_block (PStr ''/x/p.pdb'') (PStr ''/x/l.sdf'')) fresh"
  have t0: "trace fresh = []" by (simp add: fresh_def)
  have miss: "dict_get (inputs ?b0) ''protein_file'' PNone = PNone"
    by (simp add: dict_get_def)
  have r0: "?Q = (fst ?Q, snd ?Q)" and r: "?R = (fst ?R, snd ?R)" by simp_all
  have ne: "trace (snd ?R) \<noteq> []" by (simp add: run_eval)
  have nl: "fst ?Q \<noteq> Raised ''Ligand file path is required.''" by (simp add: run_eval)
  have pm: "map_of (params_of (demo_block (PStr ''/x/p.pdb'') (PStr ''/x/l.sdf''))) ''protein_file''
       = Some (PStr ''/x/p.pdb'')"
    and lm: "map_of (params_of (demo_block (PStr ''/x/p.pdb'') (PStr ''/x/l.sdf''))) ''ligand_file''
       = Some (PStr ''/x/l.sdf'')"
    by (simp_all add: params_of_def build_params_def demo_block_def dict_get_def)
  from missing_input_raises_before_any_effect [OF r0 t0] miss nl
  have "fst ?Q = Raised ''Protein file path is required.'' \<and> snd ?Q = fresh"
    by simp
  then have "?Q = (Raised ''Protein file path is required.'', fresh)"
    by (simp add: prod_eq_iff)
  with t0 miss ne pm lm missing_input_raises_before_any_effect [OF r t0]
  show ?thesis by simp
qed

text \<open>
  Claim C4 as stated fails: with the empty string as the protein path the launcher
  proceeds, writes a parameter record whose protein path is empty and spawns the child.
\<close>

theorem empty_path_is_not_rejected:
  "JsonDumped ''/tmp/tmpk3x9.json''
     [(''protein_file'', PStr ''''), (''ligand_file'', PStr ''/x/l.sdf''),
      (''md_steps'', PInt 1000), (''md_save_interval'', PInt 10),
      (''platform_name'', PStr ''CPU''), (''platform_precision'', PStr ''mixed''),
      (''starting_state_path'', PStr '''')]
     \<in> set (trace (snd (runMDSimulation (demo_host failing_child)
                           (demo_block (PStr '''') (PStr ''/x/l.sdf'')) fresh)))
   \<and> ProcessSpawned demo_cmd
     \<in> set (trace (snd (runMDSimulation (demo_host failing_child)
                           (demo_block (PStr '''') (PStr ''/x/l.sdf'')) fresh)))"
  by (simp add: run_eval)

text \<open>
  The cleanup of the two handlers never raises: it does nothing when \<open>param_file_path\<close> is
  not bound or the file is gone, and afterwards the file does not exist. A child that
  exits with a non-zero code makes the launcher raise with its temporary file removed, and
  so does every path on which \<open>json.dump\<close> had returned.
\<close>

lemma cleanup_tolerates:
  "cleanup h None s = s" "p \<notin> files s \<Longrightarrow> cleanup h (Some p) s = s"
  "p \<notin> files (cleanup h (Some p) s)"
  by (simp_all add: cleanup_def os_unlink_def emit_def)

lemma child_failure_raises_and_cleans:
  assumes "runMDSimulation h b s = (r, s')" and "trace s = []"
    and "ProcessExited rc \<in> set (trace s')" and "rc \<noteq> 0"
  shows "(\<exists>m. r = Raised m) \<and> (\<forall>p. TempFileCreated p \<in> set (trace s') \<longrightarrow> p \<notin> files s')"
  using assms(1)
proof (cases rule: run_cases)
  case (ReadFails q m t ch pre)
  with assms echoes_printed [of ch] show ?thesis by auto
next
  case (ChildFails q rc' t ch pre)
  with assms echoes_printed [of ch] show ?thesis by auto
next
  case (Done q t ch pre)
  with assms echoes_printed [of ch] show ?thesis by auto
qed (use assms in auto)

lemma temp_file_removed_once_bound:
  assumes "runMDSimulation h b s = (r, s')" and "trace s = []"
    and "JsonDumped p ps \<in> set (trace s')"
  shows "p \<notin> files s'"
  using assms(1)
proof (cases rule: run_cases)
  case (ReadFails q m t ch pre)
  with assms echoes_printed [of ch] show ?thesis by auto
next
  case (ChildFails q rc' t ch pre)
  with assms echoes_printed [of ch] show ?thesis by auto
next
  case (Done q t ch pre)
  with assms echoes_printed [of ch] show ?thesis by auto
qed (use assms in auto)

text \<open>
  But when \<open>json.dump\<close> raises, the file exists and \<open>param_file_path\<close> is not bound yet, so
  the handler skips the cleanup and the file stays.
\<close>

lemma dump_failure_leaks:
  assumes "dict_get (inputs b) ''protein_file'' PNone \<noteq> PNone"
    and "dict_get (inputs b) ''ligand_file'' PNone \<noteq> PNone"
    and "named_temporary_file h = Inr p" and "json_dump h (params_of b) = Some m"
  shows "runMDSimulation h b s =
           (Raised (''Error during MD simulation setup: '' @ m),
            s\<lparr>files := insert p (files s),
              trace := trace s @ [TempFileCreated p,
                                  Printed (''Error during MD simulation setup: '' @ m)]\<rparr>)"
proof -
  obtain r s' where run: "runMDSimulation h b s = (r, s')"
    by (cases "runMDSimulation h b s")
  from run show ?thesis
    by (cases rule: run_cases) (use assms run in auto)
qed

text \<open>
  Claim C1, at the failing input: the host passes the step count as a \<open>numpy\<close> integer, so
  \<open>json.dump\<close> raises \<open>TypeError\<close> inside the \<open>with\<close> block. The launcher raises, and the
  temporary file it created still exists afterwards; no child was started.
\<close>

theorem dump_failure_leaves_temp_file:
  "runMDSimulation (demo_host ch)
     \<lparr>inputs = [''protein_file'' \<mapsto> PStr ''/x/p.pdb'', ''ligand_file'' \<mapsto> PStr ''/x/l.sdf''],
      variables = [''md_steps'' \<mapsto> PObj ''int64'' ''1000'']\<rparr> fresh
   = (Raised ''Error during MD simulation setup: Object of type int64 is not JSON serializable'',
      \<lparr>files = {''/tmp/tmpk3x9.json''}, outputs = Map.empty,
       trace = [TempFileCreated ''/tmp/tmpk3x9.json'',
                Printed ''Error during MD simulation setup: Object of type int64 is not JSON serializable'']\<rparr>)"
  by (simp add: run_eval)

text \<open>
  The message of the failure raised for a child that exits with a non-zero code is the
  fixed prefix followed by \<open>str()\<close> of the \<open>CalledProcessError\<close>, which is built from the
  return code and the command alone: the branch that would append \<open>e.stderr\<close> is never
  taken, since the exception is created without it.
\<close>

lemma child_failure_message:
  assumes "runMDSimulation h b s = (r, s')" and "trace s = []"
    and "ProcessSpawned cmd \<in> set (trace s')" and "ProcessExited rc \<in> set (trace s')"
    and "rc \<noteq> 0"
  shows "r = Raised (''Error running MD simulation script: '' @ cpe_str h rc cmd)"
  using assms(1)
proof (cases rule: run_cases)
  case (ReadFails q m t ch pre)
  with assms echoes_printed [of ch] show ?thesis by auto
next
  case (ChildFails q rc' t ch pre)
  with assms echoes_printed [of ch] show ?thesis by auto
next
  case (Done q t ch pre)
  with assms echoes_printed [of ch] show ?thesis by auto
qed (use assms in auto)

text \<open>
  Claim C5, at the failing input: the child exits with code 1. Whatever lines \<open>raws\<close> it
  printed before, the message of the failure names the command and the exit status and
  holds nothing of the output.
\<close>

theorem child_failure_message_omits_output:
  "fst (runMDSimulation (demo_host \<lparr>out_lines = raws, ending = Exits 1\<rparr>)
          (demo_block (PStr ''/x/p.pdb'') (PStr ''/x/l.sdf'')) fresh)
   = Raised (''Error running MD simulation script: '' @ demo_cpe_str 1 demo_cmd)"
  by (simp add: run_eval read_lines_eq del: read_lines.simps)

section \<open>Properties of the worker\<close>

subsection \<open>The steps, one by one\<close>

lemma stage_eq:
  "stage sys announce c done_msg st =
     (case run_call sys c (fsys st) of
        Inl e \<Rightarrow> (Inl e, st\<lparr>printed := printed st @ [announce], called := called st @ [c]\<rparr>)
      | Inr fs' \<Rightarrow>
          (Inr (), st\<lparr>printed := printed st @ [announce, done_msg],
                      called := called st @ [c], fsys := fs'\<rparr>))"
  by (simp add: stage_def say_def Let_def split: sum.splits)

lemma main_validation_error:
  assumes "length argv = 2" and "load_json sys fs (argv ! 1) = Inr ps"
    and "validate sys fs ps = Some (FileNotFoundError m)"
  shows "main sys argv fs =
           (Died (FileNotFoundError m),
            \<lparr>printed = header (argv ! 1) ps @ [''ERROR: '' @ m], called = [], fsys = fs\<rparr>)"
  using assms by (simp add: main_def try_main_def say_def say_all_def Let_def)

lemma main_after_pipeline:
  assumes "length argv = 2" and "load_json sys fs (argv ! 1) = Inr ps"
    and "validate sys fs ps = None"
    and "pipeline sys ps \<lparr>printed = header (argv ! 1) ps, called = [], fsys = fs\<rparr> = (Inr (), st)"
  shows "main sys argv fs = (Finished, report sys st)"
  using assms by (simp add: main_def try_main_def say_all_def Let_def)

lemma report_printed:
  "printed (report sys st) =
     printed st @ snd (resolve_topology sys (fsys st)) @ snd (resolve_trajectory sys (fsys st))
       @ [[CHR 0x0A] @ rule50, ''MD SIMULATION SETUP COMPLETED SUCCESSFULLY!'', rule50,
          topology_line sys (fsys st) (fst (resolve_topology sys (fsys st))),
          trajectory_line sys (fsys st) (fst (resolve_trajectory sys (fsys st)))]"
  by (simp add: report_def say_all_def Let_def)

lemma report_rest: "called (report sys st) = called st" "fsys (report sys st) = fsys st"
  by (simp_all add: report_def say_all_def Let_def)

lemma demo_pipeline:
  "pipeline (demo_system ps made) ps st =
     (Inr (),
      st\<lparr>printed := printed st @
           [''Step 1: Creating configuration...'',
            check_mark @ '' Configuration created successfully'',
            [CHR 0x0A] @ ''Step 2: Adding water (solvation)...'',
            check_mark @ '' Solvation completed successfully'',
            [CHR 0x0A] @ ''Step 3: Running force field parameterization...'',
            check_mark @ '' Force field parameterization completed successfully'',
            [CHR 0x0A] @ ''Step 4: Running energy minimization...'',
            check_mark @ '' Energy minimization completed successfully'',
            [CHR 0x0A] @ ''Step 5: Running MD simulation...'',
            if starting_state_path ps \<noteq> []
            then check_mark @ '' Simulation completed successfully with initial state: ''
                   @ starting_state_path ps
            else check_mark @ '' Simulation completed successfully from minimized structure''],
         called := called st @
           [Create_config (protein_file ps) (ligand_file ps) (md_steps ps)
              (md_save_interval ps) (platform_name ps) (platform_precision ps),
            Add_water, Forcefield_parameterization, Energy_minimization,
            Simulation (if starting_state_path ps \<noteq> [] then Some (starting_state_path ps)
                        else None)],
         fsys := fsys st @ made\<rparr>)"
  by (simp add: pipeline_def and_then_def stage_eq demo_system_def)

lemma search_topology_find:
  "fst (search_topology sys fs alts) =
     (case find (path_exists sys fs) alts of None \<Rightarrow> '''' | Some f \<Rightarrow> abspath sys fs f)"
  by (induction alts) simp_all

lemma search_trajectory_find:
  "fst (search_trajectory sys fs pats) =
     (case find (\<lambda>p. glob sys fs p \<noteq> []) pats of
        None \<Rightarrow> ''''
      | Some p \<Rightarrow> abspath sys fs (hd (glob sys fs p)))"
  by (induction pats) (simp_all split: list.splits)

lemmas demo_eval =
  demo_system_def demo_params_def demo_argv_def validate_def str_startswith_def
  resolve_topology_def resolve_trajectory_def alt_topo_files_def traj_patterns_def
  topology_line_def trajectory_line_def Let_def

lemma demo_main:
  assumes "validate (demo_system ps made) [] ps = None"
  shows "main (demo_system ps made) demo_argv [] =
           (Finished,
            report (demo_system ps made)
              (snd (pipeline (demo_system ps made) ps
                 \<lparr>printed = header (demo_argv ! 1) ps, called = [], fsys = []\<rparr>)))"
proof (rule main_after_pipeline)
  show "length demo_argv = 2" by (simp add: demo_argv_def)
  show "load_json (demo_system ps made) [] (demo_argv ! 1) = Inr ps"
    by (simp add: demo_system_def)
  show "validate (demo_system ps made) [] ps = None" by (rule assms)
  show "pipeline (demo_system ps made) ps
          \<lparr>printed = header (demo_argv ! 1) ps, called = [], fsys = []\<rparr>
        = (Inr (), snd (pipeline (demo_system ps made) ps
                 \<lparr>printed = header (demo_argv ! 1) ps, called = [], fsys = []\<rparr>))"
    by (simp add: demo_pipeline)
qed

lemma demo_main_parts:
  assumes "validate (demo_system ps made) [] ps = None"
  shows "fst (main (demo_system ps made) demo_argv []) = Finished"
    and "fsys (snd (main (demo_system ps made) demo_argv [])) = made"
    and "called (snd (main (demo_system ps made) demo_argv [])) =
           [Create_config (protein_file ps) (ligand_file ps) (md_steps ps)
              (md_save_interval ps) (platform_name ps) (platform_precision ps),
            Add_water, Forcefield_parameterization, Energy_minimization,
            Simulation (if starting_state_path ps \<noteq> [] then Some (starting_state_path ps)
                        else None)]"
    and "last (printed (snd (main (demo_system ps made) demo_argv []))) =
           trajectory_line (demo_system ps made) made
             (fst (resolve_trajectory (demo_system ps made) made))"
    and "last (butlast (printed (snd (main (demo_system ps made) demo_argv [])))) =
           topology_line (demo_system ps made) made
             (fst (resolve_topology (demo_system ps made) made))"
  by (simp_all add: demo_main [OF assms] report_printed report_rest demo_pipeline
      butlast_append)

subsection \<open>Claims about the worker\<close>

text \<open>
  Claim C6. When the parameter file names a protein file, a ligand file or a non-empty
  starting-state file that does not exist, the worker raises \<open>FileNotFoundError\<close> for the
  first of them that is missing, which the first handler catches: the run exits with code
  1, its last line is \<open>ERROR:\<close> followed by that message, no toolkit call was made and the
  file system is untouched.
\<close>

theorem missing_file_stops_worker_before_pipeline:
  assumes "length argv = 2" and "load_json sys fs (argv ! 1) = Inr ps"
    and "\<not> path_exists sys fs (protein_file ps) \<or> \<not> path_exists sys fs (ligand_file ps)
         \<or> (starting_state_path ps \<noteq> [] \<and> \<not> path_exists sys fs (starting_state_path ps))"
  shows "\<exists>m. m = (if \<not> path_exists sys fs (protein_file ps)
                   then ''Protein file not found: '' @ protein_file ps
                   else if \<not> path_exists sys fs (ligand_file ps)
                   then ''Ligand file not found: '' @ ligand_file ps
                   else ''Starting state file not found: '' @ starting_state_path ps)
          \<and> fst (main sys argv fs) = Died (FileNotFoundError m)
          \<and> exit_code (fst (main sys argv fs)) = 1
          \<and> called (snd (main sys argv fs)) = []
          \<and> printed (snd (main sys argv fs)) = header (argv ! 1) ps @ [''ERROR: '' @ m]
          \<and> fsys (snd (main sys argv fs)) = fs"
proof -
  let ?m = "if \<not> path_exists sys fs (protein_file ps)
            then ''Protein file not found: '' @ protein_file ps
            else if \<not> path_exists sys fs (ligand_file ps)
            then ''Ligand file not found: '' @ ligand_file ps
            else ''Starting state file not found: '' @ starting_state_path ps"
  have "validate sys fs ps = Some (FileNotFoundError ?m)"
    using assms(3) by (auto simp: validate_def)
  from main_validation_error [OF assms(1,2) this] show ?thesis by simp
qed

theorem missing_file_stops_worker_before_pipeline_witness:
  "length demo_argv = 2
   \<and> load_json (demo_system (demo_params\<lparr>protein_file := ''/data/missing.pdb''\<rparr>) []) []
        (demo_argv ! 1) = Inr (demo_params\<lparr>protein_file := ''/data/missing.pdb''\<rparr>)
   \<and> \<not> path_exists (demo_system (demo_params\<lparr>protein_file := ''/data/missing.pdb''\<rparr>) []) []
         (protein_file (demo_params\<lparr>protein_file := ''/data/missing.pdb''\<rparr>))
   \<and> fst (main (demo_system (demo_params\<lparr>protein_file := ''/data/missing.pdb''\<rparr>) [])
             demo_argv [])
       = Died (FileNotFoundError ''Protein file not found: /data/missing.pdb'')
   \<and> exit_code (fst (main (demo_system (demo_params\<lparr>protein_file := ''/data/missing.pdb''\<rparr>) [])
             demo_argv [])) = 1
   \<and> called (snd (main (demo_system (demo_params\<lparr>protein_file := ''/data/missing.pdb''\<rparr>) [])
             demo_argv [])) = []"
proof -
  let ?P = "demo_params\<lparr>protein_file := ''/data/missing.pdb''\<rparr>"
  let ?S = "demo_system ?P []"
  have a: "length demo_argv = 2" by (simp add: demo_argv_def)
  have b: "load_json ?S [] (demo_argv ! 1) = Inr ?P" by (simp add: demo_system_def)
  have c: "\<not> path_exists ?S [] (protein_file ?P)"
    by (simp add: demo_system_def demo_params_def)
  from c have c': "\<not> path_exists ?S [] (protein_file ?P) \<or> \<not> path_exists ?S [] (ligand_file ?P)
         \<or> (starting_state_path ?P \<noteq> [] \<and> \<not> path_exists ?S [] (starting_state_path ?P))"
    by (rule disjI1)
  have p: "protein_file ?P = ''/data/missing.pdb''" by simp
  from missing_file_stops_worker_before_pipeline [OF a b c'] a b c p
  show ?thesis by simp
qed

text \<open>
  Claim C7. When the pipeline does not raise, the worker finishes with exit code 0 and the
  last two lines it prints are the two sentinel lines: \<open>TOPOLOGY_FILE:\<close> and
  \<open>TRAJECTORY_FILE:\<close>, each followed by the resolved path when the resolution gave a path
  that exists, and by the text \<open>Not found - expected at ...\<close> otherwise. Neither a missing
  topology nor a missing trajectory changes the exit code. In the witness the topology is
  found and the trajectory is not.
\<close>

theorem successful_pipeline_reports_and_exits_zero:
  assumes "length argv = 2" and "load_json sys fs (argv ! 1) = Inr ps"
    and "validate sys fs ps = None"
    and "pipeline sys ps \<lparr>printed = header (argv ! 1) ps, called = [], fsys = fs\<rparr> = (Inr (), st)"
  shows "fst (main sys argv fs) = Finished
       \<and> exit_code (fst (main sys argv fs)) = 0
       \<and> (\<exists>before topo traj.
            topo = fst (resolve_topology sys (fsys st)) \<and>
            traj = fst (resolve_trajectory sys (fsys st)) \<and>
            printed (snd (main sys argv fs)) =
              before @
              [if topo \<noteq> [] \<and> path_exists sys (fsys st) topo then ''TOPOLOGY_FILE:'' @ topo
               else ''TOPOLOGY_FILE:Not found - expected at output/emin.pdb'',
               if traj \<noteq> [] \<and> path_exists sys (fsys st) traj then ''TRAJECTORY_FILE:'' @ traj
               else ''TRAJECTORY_FILE:Not found - expected at output/md_trajectory_id_0.dcd''])"
proof -
  have m: "main sys argv fs = (Finished, report sys st)"
    using assms by (rule main_after_pipeline)
  have "printed (report sys st) =
          (printed st @ snd (resolve_topology sys (fsys st))
             @ snd (resolve_trajectory sys (fsys st))
             @ [[CHR 0x0A] @ rule50, ''MD SIMULATION SETUP COMPLETED SUCCESSFULLY!'', rule50])
          @ [topology_line sys (fsys st) (fst (resolve_topology sys (fsys st))),
             trajectory_line sys (fsys st) (fst (resolve_trajectory sys (fsys st)))]"
    by (simp add: report_printed)
  with m show ?thesis
    by (simp add: topology_line_def trajectory_line_def del: append_assoc)
qed

theorem successful_pipeline_reports_and_exits_zero_witness:
  "length demo_argv = 2
   \<and> load_json (demo_system demo_params [''output/emin.pdb'']) [] (demo_argv ! 1)
       = Inr demo_params
   \<and> validate (demo_system demo_params [''output/emin.pdb'']) [] demo_params = None
   \<and> fst (pipeline (demo_system demo_params [''output/emin.pdb'']) demo_params
        \<lparr>printed = header (demo_argv ! 1) demo_params, called = [], fsys = []\<rparr>) = Inr ()
   \<and> fst (main (demo_system demo_params [''output/emin.pdb'']) demo_argv []) = Finished
   \<and> exit_code (fst (main (demo_system demo_params [''output/emin.pdb'']) demo_argv [])) = 0
   \<and> last (butlast (printed (snd (main (demo_system demo_params [''output/emin.pdb''])
        demo_argv [])))) = ''TOPOLOGY_FILE:/work/output/emin.pdb''
   \<and> last (printed (snd (main (demo_system demo_params [''output/emin.pdb''])
        demo_argv []))) = ''TRAJECTORY_FILE:Not found - expected at output/md_trajectory_id_0.dcd''"
proof -
  let ?S = "demo_system demo_params [''output/emin.pdb'']"
  let ?st = "snd (pipeline ?S demo_params
               \<lparr>printed = header (demo_argv ! 1) demo_params, called = [], fsys = []\<rparr>)"
  have a: "length demo_argv = 2" by (simp add: demo_argv_def)
  have b: "load_json ?S [] (demo_argv ! 1) = Inr demo_params" by (simp add: demo_system_def)
  have c: "validate ?S [] demo_params = None" by (simp add: demo_eval)
  have d: "pipeline ?S demo_params
             \<lparr>printed = header (demo_argv ! 1) demo_params, called = [], fsys = []\<rparr>
           = (Inr (), ?st)"
    by (simp add: demo_pipeline)
  have d': "fst (pipeline ?S demo_params
             \<lparr>printed = header (demo_argv ! 1) demo_params, called = [], fsys = []\<rparr>)
           = Inr ()"
    by (simp add: demo_pipeline)
  have f: "fsys ?st = [''output/emin.pdb'']" by (simp add: demo_pipeline)
  have topo: "fst (resolve_topology ?S [''output/emin.pdb'']) = ''/work/output/emin.pdb''"
    and ex: "path_exists ?S [''output/emin.pdb''] ''/work/output/emin.pdb''"
    and traj: "fst (resolve_trajectory ?S [''output/emin.pdb'']) = []"
    by (simp_all add: demo_eval)
  from successful_pipeline_reports_and_exits_zero [OF a b c d]
  obtain before where
    "fst (main ?S demo_argv []) = Finished" "exit_code (fst (main ?S demo_argv [])) = 0"
    "printed (snd (main ?S demo_argv [])) =
       before @ [''TOPOLOGY_FILE:/work/output/emin.pdb'',
                 ''TRAJECTORY_FILE:Not found - expected at output/md_trajectory_id_0.dcd'']"
    unfolding f topo traj using ex by auto
  with a b c d' show ?thesis by (simp add: butlast_append)
qed

text \<open>
  Claim C8, as the code has it. When the expected topology \<open>output/emin.pdb\<close> does not
  exist, the topology is the absolute path of the first name of the fixed list
  \<open>output/emin.pdb\<close>, \<open>emin.pdb\<close>, \<open>output/system.pdb\<close>, \<open>system.pdb\<close> that exists, and empty
  when none does. In particular it is the absolute path of \<open>output/system.pdb\<close> when that
  file exists and neither \<open>output/emin.pdb\<close> nor \<open>emin.pdb\<close> of the working directory does.
\<close>

theorem topology_fallback_takes_first_existing:
  assumes "\<not> path_exists sys fs (abspath sys fs ''output/emin.pdb'')"
  shows "fst (resolve_topology sys fs) =
           (case find (path_exists sys fs) alt_topo_files of
              None \<Rightarrow> ''''
            | Some f \<Rightarrow> abspath sys fs f)
       \<and> (\<not> path_exists sys fs ''output/emin.pdb'' \<and> \<not> path_exists sys fs ''emin.pdb''
            \<and> path_exists sys fs ''output/system.pdb'' \<longrightarrow>
          fst (resolve_topology sys fs) = abspath sys fs ''output/system.pdb'')"
proof -
  have "fst (resolve_topology sys fs) = fst (search_topology sys fs alt_topo_files)"
    using assms by (simp add: resolve_topology_def Let_def split: prod.splits)
  then show ?thesis
    by (simp add: search_topology_find) (simp add: alt_topo_files_def)
qed

theorem topology_fallback_takes_first_existing_witness:
  "\<not> path_exists (demo_system demo_params []) [''output/system.pdb'', ''system.pdb'']
       (abspath (demo_system demo_params []) [''output/system.pdb'', ''system.pdb'']
          ''output/emin.pdb'')
   \<and> \<not> path_exists (demo_system demo_params []) [''output/system.pdb'', ''system.pdb'']
         ''output/emin.pdb''
   \<and> \<not> path_exists (demo_system demo_params []) [''output/system.pdb'', ''system.pdb'']
         ''emin.pdb''
   \<and> path_exists (demo_system demo_params []) [''output/system.pdb'', ''system.pdb'']
         ''output/system.pdb''
   \<and> fst (resolve_topology (demo_system demo_params [])
              [''output/system.pdb'', ''system.pdb'']) = ''/work/output/system.pdb''"
proof -
  let ?S = "demo_system demo_params []"
  let ?F = "[''output/system.pdb'', ''system.pdb'']"
  have a: "\<not> path_exists ?S ?F (abspath ?S ?F ''output/emin.pdb'')"
    and b: "\<not> path_exists ?S ?F ''output/emin.pdb''"
    and c: "\<not> path_exists ?S ?F ''emin.pdb''"
    and d: "path_exists ?S ?F ''output/system.pdb''"
    and e: "abspath ?S ?F ''output/system.pdb'' = ''/work/output/system.pdb''"
    by (simp_all add: demo_system_def str_startswith_def)
  from topology_fallback_takes_first_existing [OF a] b c d
  have "fst (resolve_topology ?S ?F) = abspath ?S ?F ''output/system.pdb''" by blast
  with e have "fst (resolve_topology ?S ?F) = ''/work/output/system.pdb''" by simp
  with a b c d show ?thesis by (intro conjI)
qed

text \<open>
  Claim C8 as stated fails: in a run whose pipeline leaves \<open>emin.pdb\<close> in the working
  directory and \<open>output/system.pdb\<close>, the expected file is absent and
  \<open>output/system.pdb\<close> exists, yet the worker reports \<open>/work/emin.pdb\<close>, the earlier name
  of the list.
\<close>

theorem emin_in_working_directory_wins:
  "fst (main (demo_system demo_params [''emin.pdb'', ''output/system.pdb'']) demo_argv [])
     = Finished
   \<and> fsys (snd (main (demo_system demo_params [''emin.pdb'', ''output/system.pdb''])
                  demo_argv []))
     = [''emin.pdb'', ''output/system.pdb'']
   \<and> \<not> path_exists (demo_system demo_params [''emin.pdb'', ''output/system.pdb''])
         [''emin.pdb'', ''output/system.pdb'']
         (abspath (demo_system demo_params [''emin.pdb'', ''output/system.pdb''])
            [''emin.pdb'', ''output/system.pdb''] ''output/emin.pdb'')
   \<and> path_exists (demo_system demo_params [''emin.pdb'', ''output/system.pdb''])
         [''emin.pdb'', ''output/system.pdb''] ''output/system.pdb''
   \<and> abspath (demo_system demo_params [''emin.pdb'', ''output/system.pdb''])
         [''emin.pdb'', ''output/system.pdb''] ''output/system.pdb''
       = ''/work/output/system.pdb''
   \<and> fst (resolve_topology (demo_system demo_params [''emin.pdb'', ''output/system.pdb''])
         [''emin.pdb'', ''output/system.pdb'']) = ''/work/emin.pdb''
   \<and> fst (resolve_topology (demo_system demo_params [''emin.pdb'', ''output/system.pdb''])
         [''emin.pdb'', ''output/system.pdb'']) \<noteq> ''/work/output/system.pdb''
   \<and> last (butlast (printed (snd (main
         (demo_system demo_params [''emin.pdb'', ''output/system.pdb'']) demo_argv []))))
       = ''TOPOLOGY_FILE:/work/emin.pdb''"
proof -
  let ?S = "demo_system demo_params [''emin.pdb'', ''output/system.pdb'']"
  have v: "validate ?S [] demo_params = None" by (simp add: demo_eval)
  have r: "fst (resolve_topology ?S [''emin.pdb'', ''output/system.pdb'']) = ''/work/emin.pdb''"
    by (simp add: demo_eval)
  have l: "topology_line ?S [''emin.pdb'', ''output/system.pdb''] ''/work/emin.pdb''
             = ''TOPOLOGY_FILE:/work/emin.pdb''"
    by (simp add: demo_eval)
  show ?thesis
    by (simp add: demo_main_parts [OF v] r l) (simp add: demo_system_def str_startswith_def)
qed

text \<open>
  Claim C9, as the code has it. When the expected trajectory
  \<open>output/md_trajetory_id_0.dcd\<close> does not exist, the trajectory is the absolute path of the
  first match of the first pattern of the fixed list that has a match, and empty when
  none has. In particular it is the one match of \<open>output/trajectory*.dcd\<close> when neither
  \<open>output/md_trajectory_id_*.dcd\<close> nor \<open>output/md_trajectory*.dcd\<close> has a match.
\<close>

theorem trajectory_fallback_takes_first_match:
  assumes "\<not> path_exists sys fs (abspath sys fs ''output/md_trajetory_id_0.dcd'')"
  shows "fst (resolve_trajectory sys fs) =
           (case find (\<lambda>p. glob sys fs p \<noteq> []) traj_patterns of
              None \<Rightarrow> ''''
            | Some p \<Rightarrow> abspath sys fs (hd (glob sys fs p)))
       \<and> (glob sys fs ''output/md_trajectory_id_*.dcd'' = []
            \<and> glob sys fs ''output/md_trajectory*.dcd'' = []
            \<and> glob sys fs ''output/trajectory*.dcd'' = [m] \<longrightarrow>
          fst (resolve_trajectory sys fs) = abspath sys fs m)"
proof -
  have "fst (resolve_trajectory sys fs) = fst (search_trajectory sys fs traj_patterns)"
    using assms by (simp add: resolve_trajectory_def Let_def split: prod.splits)
  then show ?thesis
    by (simp add: search_trajectory_find) (simp add: traj_patterns_def)
qed

theorem trajectory_fallback_takes_first_match_witness:
  "\<not> path_exists (demo_system demo_params []) [''output/trajectory_7.dcd'']
       (abspath (demo_system demo_params []) [''output/trajectory_7.dcd'']
          ''output/md_trajetory_id_0.dcd'')
   \<and> glob (demo_system demo_params []) [''output/trajectory_7.dcd'']
        ''output/md_trajectory_id_*.dcd'' = []
   \<and> glob (demo_system demo_params []) [''output/trajectory_7.dcd'']
        ''output/md_trajectory*.dcd'' = []
   \<and> glob (demo_system demo_params []) [''output/trajectory_7.dcd'']
        ''output/trajectory*.dcd'' = [''output/trajectory_7.dcd'']
   \<and> fst (resolve_trajectory (demo_system demo_params []) [''output/trajectory_7.dcd''])
       = ''/work/output/trajectory_7.dcd''"
proof -
  let ?S = "demo_system demo_params []"
  let ?F = "[''output/trajectory_7.dcd'']"
  have a: "\<not> path_exists ?S ?F (abspath ?S ?F ''output/md_trajetory_id_0.dcd'')"
    and b: "glob ?S ?F ''output/md_trajectory_id_*.dcd'' = []"
    and c: "glob ?S ?F ''output/md_trajectory*.dcd'' = []"
    and d: "glob ?S ?F ''output/trajectory*.dcd'' = [''output/trajectory_7.dcd'']"
    and e: "abspath ?S ?F ''output/trajectory_7.dcd'' = ''/work/output/trajectory_7.dcd''"
    by (simp_all add: demo_system_def str_startswith_def)
  from trajectory_fallback_takes_first_match [OF a, of "''output/trajectory_7.dcd''"] b c d
  have "fst (resolve_trajectory ?S ?F) = abspath ?S ?F ''output/trajectory_7.dcd''" by blast
  with e have "fst (resolve_trajectory ?S ?F) = ''/work/output/trajectory_7.dcd''" by simp
  with a b c d show ?thesis by (intro conjI)
qed

text \<open>
  Claim C9 as stated fails: in a run whose pipeline leaves \<open>output/md_trajectory.dcd\<close> and
  \<open>output/trajectory.dcd\<close>, no file matches \<open>output/md_trajectory_id_*.dcd\<close> and exactly
  one matches \<open>output/trajectory*.dcd\<close>, yet the worker reports
  \<open>/work/output/md_trajectory.dcd\<close>, the match of the second pattern.
\<close>

theorem earlier_pattern_wins_over_trajectory_pattern:
  "fst (main (demo_system demo_params [''output/md_trajectory.dcd'', ''output/trajectory.dcd''])
          demo_argv []) = Finished
   \<and> fsys (snd (main (demo_system demo_params
                        [''output/md_trajectory.dcd'', ''output/trajectory.dcd''])
                  demo_argv []))
     = [''output/md_trajectory.dcd'', ''output/trajectory.dcd'']
   \<and> \<not> path_exists (demo_system demo_params
                         [''output/md_trajectory.dcd'', ''output/trajectory.dcd''])
         [''output/md_trajectory.dcd'', ''output/trajectory.dcd'']
         (abspath (demo_system demo_params
                     [''output/md_trajectory.dcd'', ''output/trajectory.dcd''])
            [''output/md_trajectory.dcd'', ''output/trajectory.dcd'']
            ''output/md_trajetory_id_0.dcd'')
   \<and> glob (demo_system demo_params [''output/md_trajectory.dcd'', ''output/trajectory.dcd''])
         [''output/md_trajectory.dcd'', ''output/trajectory.dcd'']
         ''output/md_trajectory_id_*.dcd'' = []
   \<and> glob (demo_system demo_params [''output/md_trajectory.dcd'', ''output/trajectory.dcd''])
         [''output/md_trajectory.dcd'', ''output/trajectory.dcd'']
         ''output/trajectory*.dcd'' = [''output/trajectory.dcd'']
   \<and> abspath (demo_system demo_params [''output/md_trajectory.dcd'', ''output/trajectory.dcd''])
         [''output/md_trajectory.dcd'', ''output/trajectory.dcd''] ''output/trajectory.dcd''
       = ''/work/output/trajectory.dcd''
   \<and> fst (resolve_trajectory
             (demo_system demo_params [''output/md_trajectory.dcd'', ''output/trajectory.dcd''])
             [''output/md_trajectory.dcd'', ''output/trajectory.dcd''])
       = ''/work/output/md_trajectory.dcd''
   \<and> fst (resolve_trajectory
             (demo_system demo_params [''output/md_trajectory.dcd'', ''output/trajectory.dcd''])
             [''output/md_trajectory.dcd'', ''output/trajectory.dcd''])
       \<noteq> ''/work/output/trajectory.dcd''
   \<and> last (printed (snd (main
         (demo_system demo_params [''output/md_trajectory.dcd'', ''output/trajectory.dcd''])
         demo_argv [])))
       = ''TRAJECTORY_FILE:/work/output/md_trajectory.dcd''"
proof -
  let ?S = "demo_system demo_params [''output/md_trajectory.dcd'', ''output/trajectory.dcd'']"
  let ?F = "[''output/md_trajectory.dcd'', ''output/trajectory.dcd'']"
  have v: "validate ?S [] demo_params = None" by (simp add: demo_eval)
  have r: "fst (resolve_trajectory ?S ?F) = ''/work/output/md_trajectory.dcd''"
    by (simp add: demo_eval)
  have l: "trajectory_line ?S ?F ''/work/output/md_trajectory.dcd''
             = ''TRAJECTORY_FILE:/work/output/md_trajectory.dcd''"
    by (simp add: demo_eval)
  show ?thesis
    by (simp add: demo_main_parts [OF v] r l) (simp add: demo_system_def str_startswith_def)
qed

end
